theory Spec2Isabelle
  imports Main "HOL-Library.Word"
begin

unbundle bit_operations_syntax

section \<open>Native types and constants\<close>

text \<open>
  The run-time routines of \<^verbatim>\<open>KexDll/kexrtl.c\<close> are embedded over the native types they
  are written with.  A pointer-sized value (\<^verbatim>\<open>PVOID\<close>, \<^verbatim>\<open>ULONG_PTR\<close>, \<^verbatim>\<open>SIZE_T\<close>,
  \<^verbatim>\<open>HANDLE\<close>) is an \<open>'a word\<close>: the library is built for a 32-bit and for a 64-bit
  target, and the width stays a type parameter.  \<^verbatim>\<open>ULONG\<close> and \<^verbatim>\<open>NTSTATUS\<close> are 32-bit
  words, \<^verbatim>\<open>USHORT\<close> and \<^verbatim>\<open>WCHAR\<close> 16-bit words, a byte an 8-bit word.  A counted
  \<^verbatim>\<open>UNICODE_STRING\<close> is the list of its characters.
\<close>

type_synonym NTSTATUS = "32 word"
type_synonym ULONG = "32 word"
type_synonym USHORT = "16 word"
type_synonym WCHAR = "16 word"
type_synonym BYTE = "8 word"
type_synonym UNICODE_STRING = "WCHAR list"

text \<open>\<^verbatim>\<open>NT_SUCCESS(Status)\<close> is \<^verbatim>\<open>((NTSTATUS)(Status)) >= 0\<close> on the signed 32-bit status.\<close>

definition NT_SUCCESS :: "NTSTATUS \<Rightarrow> bool" where
  "NT_SUCCESS Status = (0 \<le> sint Status)"

definition STATUS_SUCCESS :: NTSTATUS where
  "STATUS_SUCCESS = 0"

definition STATUS_INVALID_PARAMETER :: NTSTATUS where
  "STATUS_INVALID_PARAMETER = 0xC000000D"

definition STATUS_INVALID_IMAGE_FORMAT :: NTSTATUS where
  "STATUS_INVALID_IMAGE_FORMAT = 0xC000007B"

definition STATUS_ENTRYPOINT_NOT_FOUND :: NTSTATUS where
  "STATUS_ENTRYPOINT_NOT_FOUND = 0xC0000139"

definition STATUS_ACCESS_DENIED :: NTSTATUS where
  "STATUS_ACCESS_DENIED = 0xC0000022"

definition STATUS_NOT_COMMITTED :: NTSTATUS where
  "STATUS_NOT_COMMITTED = 0xC000002D"

definition STATUS_PARTIAL_COPY :: NTSTATUS where
  "STATUS_PARTIAL_COPY = 0x8000000D"

definition STATUS_ACCESS_VIOLATION :: NTSTATUS where
  "STATUS_ACCESS_VIOLATION = 0xC0000005"

definition PAGE_READONLY :: ULONG where
  "PAGE_READONLY = 0x02"

definition PAGE_READWRITE :: ULONG where
  "PAGE_READWRITE = 0x04"

definition MEM_IMAGE :: ULONG where
  "MEM_IMAGE = 0x1000000"

section \<open>The system-call surface\<close>

text \<open>
  The routines reach the operating system through a handful of native calls.  None of
  them is code of the library, so they are a parameter of the embedding: a record of
  functions over a state \<open>'s\<close> of the system, each returning what the call hands back
  (its status first, then the values it stores through its \<^verbatim>\<open>OUT\<close> pointers) and the
  state it leaves.  Nothing is assumed of them but their signatures.

  \<^item> \<open>NtProtectVirtualMemory h base size prot\<close> returns the status, the base address and
    the size it wrote back through its \<^verbatim>\<open>IN OUT\<close> pointers, and the old protection.
  \<^item> \<open>NtQueryVirtualMemory_MappedFilename h addr len\<close> is \<^verbatim>\<open>NtQueryVirtualMemory\<close> with
    class \<^verbatim>\<open>MemoryMappedFilenameInformation\<close> and a buffer of \<open>len\<close> bytes; it returns the
    file name stored in the buffer.
  \<^item> \<open>NtQueryVirtualMemory_Basic h addr\<close> is the same call with class
    \<^verbatim>\<open>MemoryBasicInformation\<close>; of the \<^verbatim>\<open>MEMORY_BASIC_INFORMATION\<close> it fills, the record
    keeps the two fields the library reads.
  \<^item> \<open>NtQueryInformationProcess_Wow64 h\<close> is \<^verbatim>\<open>NtQueryInformationProcess\<close> with class
    \<^verbatim>\<open>ProcessWow64Information\<close>; it returns the pointer-sized flag.
\<close>

record 'p MEMORY_BASIC_INFORMATION =
  AllocationBase :: 'p
  Type :: ULONG

record ('s, 'p) nt_os =
  LdrGetDllHandleByName ::
    "UNICODE_STRING \<Rightarrow> 's \<Rightarrow> (NTSTATUS \<times> 'p) \<times> 's"
  NtQueryVirtualMemory_MappedFilename ::
    "'p \<Rightarrow> 'p \<Rightarrow> ULONG \<Rightarrow> 's \<Rightarrow> (NTSTATUS \<times> UNICODE_STRING) \<times> 's"
  NtQueryVirtualMemory_Basic ::
    "'p \<Rightarrow> 'p \<Rightarrow> 's \<Rightarrow> (NTSTATUS \<times> 'p MEMORY_BASIC_INFORMATION) \<times> 's"
  NtQueryInformationProcess_Wow64 ::
    "'p \<Rightarrow> 's \<Rightarrow> (NTSTATUS \<times> 'p) \<times> 's"
  NtProtectVirtualMemory ::
    "'p \<Rightarrow> 'p \<Rightarrow> 'p \<Rightarrow> ULONG \<Rightarrow> 's
      \<Rightarrow> (NTSTATUS \<times> 'p \<times> 'p \<times> ULONG) \<times> 's"
  NtWriteVirtualMemory ::
    "'p \<Rightarrow> 'p \<Rightarrow> BYTE list \<Rightarrow> 'p \<Rightarrow> 's \<Rightarrow> NTSTATUS \<times> 's"
  RtlEqualUnicodeString ::
    "UNICODE_STRING \<Rightarrow> UNICODE_STRING \<Rightarrow> bool \<Rightarrow> bool"

text \<open>
  The records are polymorphic in the type \<open>'p\<close> of a pointer-sized value; the routines
  use them at \<open>'p = 'a word\<close>.

  Every routine returns, beside its result and the final state, the calls it made in
  program order, each with its arguments and the status it returned.
\<close>

datatype 'p syscall =
    Call_LdrGetDllHandleByName UNICODE_STRING
  | Call_QueryMappedFilename 'p 'p ULONG
  | Call_QueryBasic 'p 'p
  | Call_QueryWow64 'p
  | Call_Protect 'p 'p 'p ULONG
  | Call_Write 'p 'p "BYTE list" 'p

type_synonym 'p trace = "('p syscall \<times> NTSTATUS) list"

section \<open>KexRtlRemoteProcessBitness\<close>

text \<open>
  \<^verbatim>\<open>KexRtlOperatingSystemBitness\<close> is declared elsewhere in the library; its value is
  the parameter \<open>OperatingSystemBitness\<close>.
\<close>

definition KexRtlRemoteProcessBitness ::
  "('s, 'a::len word) nt_os \<Rightarrow> ULONG \<Rightarrow> 'a word \<Rightarrow> 's \<Rightarrow> ULONG \<times> 's \<times> 'a word trace" where
  "KexRtlRemoteProcessBitness os OperatingSystemBitness ProcessHandle s =
    (if OperatingSystemBitness = 32 then (32, s, [])
     else
       (case NtQueryInformationProcess_Wow64 os ProcessHandle s of
         ((Status, Peb32), s1) \<Rightarrow>
           (if NT_SUCCESS Status \<and> Peb32 \<noteq> 0
            then (32, s1, [(Call_QueryWow64 ProcessHandle, Status)])
            else (64, s1, [(Call_QueryWow64 ProcessHandle, Status)]))))"

section \<open>KexRtlWriteProcessMemory\<close>

definition KexRtlWriteProcessMemory ::
  "('s, 'a::len word) nt_os \<Rightarrow> 'a word \<Rightarrow> 'a word \<Rightarrow> BYTE list \<Rightarrow> 'a word \<Rightarrow> 's
    \<Rightarrow> NTSTATUS \<times> 's \<times> 'a word trace" where
  "KexRtlWriteProcessMemory os ProcessHandle Destination Source Cb s =
    (let DestinationPageAddress = Destination;
         DestinationPageSize = Cb
     in
       case NtProtectVirtualMemory os ProcessHandle DestinationPageAddress
              DestinationPageSize PAGE_READWRITE s of
         ((Status, DestinationPageAddress', DestinationPageSize', OldProtect), s1) \<Rightarrow>
           let ev1 = (Call_Protect ProcessHandle DestinationPageAddress
                        DestinationPageSize PAGE_READWRITE, Status)
           in
             if \<not> NT_SUCCESS Status then (Status, s1, [ev1])
             else
               (case NtWriteVirtualMemory os ProcessHandle Destination Source Cb s1 of
                 (Status', s2) \<Rightarrow>
                   (case NtProtectVirtualMemory os ProcessHandle DestinationPageAddress'
                           DestinationPageSize' OldProtect s2 of
                     ((Status'', _), s3) \<Rightarrow>
                       (Status', s3,
                        [ev1,
                         (Call_Write ProcessHandle Destination Source Cb, Status'),
                         (Call_Protect ProcessHandle DestinationPageAddress'
                            DestinationPageSize' OldProtect, Status'')]))))"

section \<open>KexRtlUnicodeStringEndsWith\<close>

text \<open>
  \<^verbatim>\<open>EndOfString\<close> is the window of \<^verbatim>\<open>EndsWith->Length\<close> bytes that ends where \<^verbatim>\<open>String\<close>
  ends.  Its buffer lies before \<^verbatim>\<open>String->Buffer\<close> exactly when \<^verbatim>\<open>EndsWith\<close> has more
  characters than \<^verbatim>\<open>String\<close> (\<^verbatim>\<open>KexRtlUnicodeStringCch\<close> is the number of characters of a
  counted string, here the length of the list).  \<^verbatim>\<open>RtlEqualUnicodeString\<close> is the
  system's comparison.
\<close>

definition KexRtlUnicodeStringEndsWith ::
  "('s, 'p) nt_os \<Rightarrow> UNICODE_STRING \<Rightarrow> UNICODE_STRING \<Rightarrow> bool \<Rightarrow> bool" where
  "KexRtlUnicodeStringEndsWith os String EndsWith CaseInsensitive =
    (let EndOfString = take (length EndsWith) (drop (length String - length EndsWith) String)
     in
       if length String < length EndsWith then False
       else RtlEqualUnicodeString os EndOfString EndsWith CaseInsensitive)"

section \<open>KexRtlGetNativeSystemDllBase\<close>

text \<open>A wide string literal \<^verbatim>\<open>L"..."\<close>; the backslash is character \<open>0x5C\<close>.\<close>

definition L :: "string \<Rightarrow> UNICODE_STRING" where
  "L s = map of_char s"

definition NtdllBaseName :: UNICODE_STRING where
  "NtdllBaseName = L ''ntdll.dll''"

definition NtdllPathFragment :: UNICODE_STRING where
  "NtdllPathFragment = L ''Windows'' @ [0x5C] @ L ''system32'' @ [0x5C] @ L ''ntdll.dll''"

definition NtCurrentProcess :: "'a::len word" where
  "NtCurrentProcess = - 1"

text \<open>
  The \<^verbatim>\<open>for\<close> loop of the search, entered with the value of \<^verbatim>\<open>NtdllBaseAddress\<close>.  Every
  \<^verbatim>\<open>continue\<close> runs the loop's step \<^verbatim>\<open>NtdllBaseAddress -= 0x10000\<close> on the current
  value of the variable, which after the assignment from \<^verbatim>\<open>AllocationBase\<close> is the
  allocation base.  The subtraction is that of an unsigned pointer-sized integer and
  wraps.  Nothing in the loop bounds the number of its iterations for an arbitrary
  system, so not returning is the value \<open>None\<close>.
\<close>

partial_function (option) KexRtlGetNativeSystemDllBase_scan ::
  "('s, 'a::len word) nt_os \<Rightarrow> 'a word \<Rightarrow> 's \<Rightarrow> 'a word trace
    \<Rightarrow> ('a word \<times> 's \<times> 'a word trace) option" where
  "KexRtlGetNativeSystemDllBase_scan os NtdllBaseAddress s tr =
    (if NtdllBaseAddress > 0x70000000 then
       (case NtQueryVirtualMemory_MappedFilename os NtCurrentProcess NtdllBaseAddress 512 s of
         ((Status, MappedFileNameInformation), s1) \<Rightarrow>
           (let tr1 = tr @ [(Call_QueryMappedFilename NtCurrentProcess NtdllBaseAddress 512,
                             Status)]
            in
              if \<not> NT_SUCCESS Status
              then KexRtlGetNativeSystemDllBase_scan os (NtdllBaseAddress - 0x10000) s1 tr1
              else
                (case NtQueryVirtualMemory_Basic os NtCurrentProcess NtdllBaseAddress s1 of
                  ((Status', BasicInformation), s2) \<Rightarrow>
                    (let tr2 = tr1 @ [(Call_QueryBasic NtCurrentProcess NtdllBaseAddress,
                                       Status')]
                     in
                       if \<not> NT_SUCCESS Status'
                       then KexRtlGetNativeSystemDllBase_scan os (NtdllBaseAddress - 0x10000)
                              s2 tr2
                       else
                         (let NtdllBaseAddress' = AllocationBase BasicInformation
                          in
                            if Type BasicInformation \<noteq> MEM_IMAGE
                            then KexRtlGetNativeSystemDllBase_scan os
                                   (NtdllBaseAddress' - 0x10000) s2 tr2
                            else if KexRtlUnicodeStringEndsWith os MappedFileNameInformation
                                      NtdllPathFragment True
                            then Some (NtdllBaseAddress', s2, tr2)
                            else KexRtlGetNativeSystemDllBase_scan os
                                   (NtdllBaseAddress' - 0x10000) s2 tr2)))))
     else Some (0, s, tr))"

text \<open>
  \<^verbatim>\<open>KexRtlCurrentProcessBitness\<close> and \<^verbatim>\<open>KexRtlOperatingSystemBitness\<close> are declared
  elsewhere in the library; their values are parameters.  The result \<open>0\<close> is \<^verbatim>\<open>NULL\<close>.
\<close>

definition KexRtlGetNativeSystemDllBase ::
  "('s, 'a::len word) nt_os \<Rightarrow> ULONG \<Rightarrow> ULONG \<Rightarrow> 's
    \<Rightarrow> ('a word \<times> 's \<times> 'a word trace) option" where
  "KexRtlGetNativeSystemDllBase os CurrentProcessBitness OperatingSystemBitness s =
    (if CurrentProcessBitness = OperatingSystemBitness then
       (case LdrGetDllHandleByName os NtdllBaseName s of
         ((Status, NtdllBaseAddress), s1) \<Rightarrow>
           if NT_SUCCESS Status
           then Some (NtdllBaseAddress, s1, [(Call_LdrGetDllHandleByName NtdllBaseName, Status)])
           else KexRtlGetNativeSystemDllBase_scan os 0x7FFD0000 s1
                  [(Call_LdrGetDllHandleByName NtdllBaseName, Status)])
     else KexRtlGetNativeSystemDllBase_scan os 0x7FFD0000 s [])"

text \<open>
  The addresses probed by a run, in order: one mapped-file-name query opens every
  iteration of the loop.
\<close>

fun probe_of :: "'p syscall \<times> NTSTATUS \<Rightarrow> 'p option" where
  "probe_of (Call_QueryMappedFilename h a n, st) = Some a"
| "probe_of _ = None"

definition probes :: "'p trace \<Rightarrow> 'p list" where
  "probes tr = List.map_filter probe_of tr"

definition locator_trace ::
  "('s, 'a::len word) nt_os \<Rightarrow> ULONG \<Rightarrow> ULONG \<Rightarrow> 's \<Rightarrow> 'a word trace" where
  "locator_trace os CurrentProcessBitness OperatingSystemBitness s =
    (case KexRtlGetNativeSystemDllBase os CurrentProcessBitness OperatingSystemBitness s of
       None \<Rightarrow> []
     | Some (base, s', tr) \<Rightarrow> tr)"

text \<open>
  Properties a system may have, as assumptions of the theorems on the search.
  \<open>allocation_below\<close>: whenever the file-name query and then the basic query of one
  address both succeed, the allocation base reported lies between \<open>0x10000\<close> and that
  address, as the base of the allocation that holds the address does.
  \<open>no_mapped_file\<close>: the file-name query fails at every address.
  \<open>no_native_image\<close>: at no address do both queries succeed with a region of type
  image whose file name ends in the path fragment.
\<close>

definition allocation_below :: "('s, 'a::len word) nt_os \<Rightarrow> bool" where
  "allocation_below os =
    (\<forall>a s. case NtQueryVirtualMemory_MappedFilename os NtCurrentProcess a 512 s of
       ((stN, nm), s1) \<Rightarrow>
         (case NtQueryVirtualMemory_Basic os NtCurrentProcess a s1 of
           ((stB, bi), s2) \<Rightarrow>
             NT_SUCCESS stN \<and> NT_SUCCESS stB \<longrightarrow>
               0x10000 \<le> AllocationBase bi \<and> AllocationBase bi \<le> a))"

definition no_mapped_file :: "('s, 'a::len word) nt_os \<Rightarrow> bool" where
  "no_mapped_file os =
    (\<forall>a s. \<not> NT_SUCCESS
       (fst (fst (NtQueryVirtualMemory_MappedFilename os NtCurrentProcess a 512 s))))"






section \<open>KexRtlMiniGetProcedureAddress\<close>

text \<open>
  The image is read from the address space of the calling process: a map from
  addresses to bytes, total (the routine is documented to be given a fully mapped
  image; the exception frame \<^verbatim>\<open>PROTECTED_FUNCTION\<close> that would catch a fault is not
  embedded).  Multi-byte fields are little-endian.
\<close>

definition read_USHORT :: "('a::len word \<Rightarrow> BYTE) \<Rightarrow> 'a word \<Rightarrow> USHORT" where
  "read_USHORT m a = ucast (m a) OR push_bit 8 (ucast (m (a + 1)))"

definition read_ULONG :: "('a::len word \<Rightarrow> BYTE) \<Rightarrow> 'a word \<Rightarrow> ULONG" where
  "read_ULONG m a =
     ucast (m a) OR push_bit 8 (ucast (m (a + 1))) OR
     push_bit 16 (ucast (m (a + 2))) OR push_bit 24 (ucast (m (a + 3)))"

text \<open>
  Modelled from the spec: the macro \<^verbatim>\<open>RVA_TO_VA\<close> is not in the source file.  The
  translation of a relative offset is plain base-plus-offset arithmetic, with no
  bounds check.
\<close>

definition RVA_TO_VA :: "'a::len word \<Rightarrow> ULONG \<Rightarrow> 'a word" where
  "RVA_TO_VA base rva = base + ucast rva"

text \<open>
  Modelled from the spec: the macro \<^verbatim>\<open>StringEqualA\<close> is not in the source file.  It is
  the exact, case-sensitive comparison of two zero-terminated byte strings.  The
  procedure name asked for is held as the list of its characters (none of them zero);
  the other string is read from the image at the given address.
\<close>

fun StringEqualA :: "('a::len word \<Rightarrow> BYTE) \<Rightarrow> string \<Rightarrow> 'a word \<Rightarrow> bool" where
  "StringEqualA m [] a = (m a = 0)"
| "StringEqualA m (c # cs) a = (m a = of_char c \<and> StringEqualA m cs (a + 1))"

text \<open>
  What the routine reads, in program order: the call that locates the export directory,
  loads of a number of bytes at an address, and the reading of a string.
\<close>

datatype 'p access =
    Call_RtlImageDirectoryEntryToData 'p
  | Load 'p nat
  | LoadString 'p

lemma unat_succ_less:
  fixes i n :: "'a::len word"
  assumes "i < n"
  shows "unat (i + 1) = Suc (unat i)"
proof -
  have a: "unat i < unat n" using assms by (simp add: word_less_nat_alt)
  have b: "unat n < 2 ^ LENGTH('a)" by (rule unsigned_less)
  have c: "unat (1::'a word) = 1" by simp
  from a b c have "unat i + unat (1::'a word) < 2 ^ LENGTH('a)" by linarith
  then have "unat (i + 1) = unat i + unat (1::'a word)" by (simp only: unat_add_lem)
  then show ?thesis by simp
qed

text \<open>
  The \<^verbatim>\<open>for\<close> loop over the name table.  The fields of \<^verbatim>\<open>IMAGE_EXPORT_DIRECTORY\<close> lie at
  their offsets in the structure: \<^verbatim>\<open>NumberOfNames\<close> at 24, \<^verbatim>\<open>AddressOfFunctions\<close> at 28,
  \<^verbatim>\<open>AddressOfNames\<close> at 32, \<^verbatim>\<open>AddressOfNameOrdinals\<close> at 36.  The second component of
  the result is the value left in \<^verbatim>\<open>*ProcedureAddress\<close>.
\<close>

function KexRtlMiniGetProcedureAddress_loop ::
  "('a::len word \<Rightarrow> BYTE) \<Rightarrow> 'a word \<Rightarrow> string \<Rightarrow> 'a word \<Rightarrow> 'a word \<Rightarrow> 'a word \<Rightarrow> 'a word
    \<Rightarrow> ULONG \<Rightarrow> 'a word access list \<Rightarrow> NTSTATUS \<times> 'a word \<times> 'a word access list" where
  "KexRtlMiniGetProcedureAddress_loop m DllBase ProcedureName ExportDirectory NameRvas
      FunctionRvas NameOrdinals Index acc =
    (let NumberOfNames = read_ULONG m (ExportDirectory + 24);
         acc1 = acc @ [Load (ExportDirectory + 24) 4]
     in
       if Index < NumberOfNames then
         (let CurrentProcedureName =
                RVA_TO_VA DllBase (read_ULONG m (NameRvas + 4 * ucast Index));
              acc2 = acc1 @ [Load (NameRvas + 4 * ucast Index) 4,
                             LoadString CurrentProcedureName]
          in
            if StringEqualA m ProcedureName CurrentProcedureName then
              (let Ordinal = read_USHORT m (NameOrdinals + 2 * ucast Index)
               in (STATUS_SUCCESS,
                   RVA_TO_VA DllBase (read_ULONG m (FunctionRvas + 4 * ucast Ordinal)),
                   acc2 @ [Load (NameOrdinals + 2 * ucast Index) 2,
                           Load (FunctionRvas + 4 * ucast Ordinal) 4]))
            else
              KexRtlMiniGetProcedureAddress_loop m DllBase ProcedureName ExportDirectory
                NameRvas FunctionRvas NameOrdinals (Index + 1) acc2)
       else (STATUS_ENTRYPOINT_NOT_FOUND, 0, acc1))"
  by pat_completeness auto
termination
  by (relation "measure (\<lambda>(m, DllBase, ProcedureName, ExportDirectory, NameRvas,
        FunctionRvas, NameOrdinals, Index, acc).
          unat (read_ULONG m (ExportDirectory + 24)) - unat Index)")
     (auto simp: unat_succ_less word_less_nat_alt)

text \<open>
  \<^verbatim>\<open>RtlImageDirectoryEntryToData\<close> belongs to the system; it is a parameter, called with
  the image base (its other arguments are constants) and returning the address of the
  export directory, or \<open>0\<close>.  A null \<^verbatim>\<open>ProcedureName\<close> is \<open>None\<close>; a null \<^verbatim>\<open>DllBase\<close> or
  \<^verbatim>\<open>ProcedureAddress\<close> is \<open>0\<close>.  The second component of the result is what the routine
  stored through \<^verbatim>\<open>ProcedureAddress\<close>, \<open>None\<close> when it stored nothing.
\<close>

definition KexRtlMiniGetProcedureAddress ::
  "(('a::len word \<Rightarrow> BYTE) \<Rightarrow> 'a word \<Rightarrow> 'a word) \<Rightarrow> ('a word \<Rightarrow> BYTE) \<Rightarrow> 'a word
    \<Rightarrow> string option \<Rightarrow> 'a word \<Rightarrow> NTSTATUS \<times> 'a word option \<times> 'a word access list" where
  "KexRtlMiniGetProcedureAddress RtlImageDirectoryEntryToData m DllBase ProcedureName
      ProcedureAddress =
    (case ProcedureName of
       None \<Rightarrow> (STATUS_INVALID_PARAMETER, None, [])
     | Some Name \<Rightarrow>
         if DllBase = 0 \<or> ProcedureAddress = 0 then (STATUS_INVALID_PARAMETER, None, [])
         else
           (let ExportDirectory = RtlImageDirectoryEntryToData m DllBase
            in
              if ExportDirectory = 0
              then (STATUS_INVALID_IMAGE_FORMAT, Some 0,
                    [Call_RtlImageDirectoryEntryToData DllBase])
              else
                (let NameRvas = RVA_TO_VA DllBase (read_ULONG m (ExportDirectory + 32));
                     FunctionRvas = RVA_TO_VA DllBase (read_ULONG m (ExportDirectory + 28));
                     NameOrdinals = RVA_TO_VA DllBase (read_ULONG m (ExportDirectory + 36))
                 in
                   case KexRtlMiniGetProcedureAddress_loop m DllBase Name ExportDirectory
                          NameRvas FunctionRvas NameOrdinals 0
                          [Call_RtlImageDirectoryEntryToData DllBase,
                           Load (ExportDirectory + 32) 4,
                           Load (ExportDirectory + 28) 4,
                           Load (ExportDirectory + 36) 4] of
                     (Status, Address, acc) \<Rightarrow> (Status, Some Address, acc))))"

text \<open>
  The tables of the export directory, as the routine reads them: the number of names,
  the address of the \<open>i\<close>-th name, the ordinal paired with the \<open>i\<close>-th name, and the
  relative offset stored in the address table for an ordinal.
\<close>

definition export_NumberOfNames :: "('a::len word \<Rightarrow> BYTE) \<Rightarrow> 'a word \<Rightarrow> ULONG" where
  "export_NumberOfNames m ExportDirectory = read_ULONG m (ExportDirectory + 24)"

definition export_name :: "('a::len word \<Rightarrow> BYTE) \<Rightarrow> 'a word \<Rightarrow> 'a word \<Rightarrow> ULONG \<Rightarrow> 'a word" where
  "export_name m DllBase ExportDirectory i =
     RVA_TO_VA DllBase
       (read_ULONG m (RVA_TO_VA DllBase (read_ULONG m (ExportDirectory + 32)) + 4 * ucast i))"

definition export_ordinal :: "('a::len word \<Rightarrow> BYTE) \<Rightarrow> 'a word \<Rightarrow> 'a word \<Rightarrow> ULONG \<Rightarrow> USHORT" where
  "export_ordinal m DllBase ExportDirectory i =
     read_USHORT m (RVA_TO_VA DllBase (read_ULONG m (ExportDirectory + 36)) + 2 * ucast i)"

definition export_function :: "('a::len word \<Rightarrow> BYTE) \<Rightarrow> 'a word \<Rightarrow> 'a word \<Rightarrow> USHORT \<Rightarrow> ULONG" where
  "export_function m DllBase ExportDirectory k =
     read_ULONG m (RVA_TO_VA DllBase (read_ULONG m (ExportDirectory + 28)) + 4 * ucast k)"

section \<open>Systems to run the routines on\<close>

text \<open>
  Instances of the system-call surface, for running the routines on concrete inputs.
  \<open>os_none\<close> is the system in which every call is refused and changes nothing.
\<close>

definition STATUS_INVALID_ADDRESS :: NTSTATUS where
  "STATUS_INVALID_ADDRESS = 0xC0000141"

definition os_none :: "('s, 'a::len word) nt_os" where
  "os_none = \<lparr>
     LdrGetDllHandleByName = (\<lambda>n s. ((STATUS_ACCESS_DENIED, 0), s)),
     NtQueryVirtualMemory_MappedFilename = (\<lambda>h a l s. ((STATUS_INVALID_ADDRESS, []), s)),
     NtQueryVirtualMemory_Basic =
       (\<lambda>h a s. ((STATUS_ACCESS_DENIED, \<lparr>AllocationBase = 0, Type = 0\<rparr>), s)),
     NtQueryInformationProcess_Wow64 = (\<lambda>h s. ((STATUS_ACCESS_DENIED, 0), s)),
     NtProtectVirtualMemory = (\<lambda>h b n p s. ((STATUS_ACCESS_DENIED, b, n, 0), s)),
     NtWriteVirtualMemory = (\<lambda>h d src n s. (STATUS_ACCESS_DENIED, s)),
     RtlEqualUnicodeString = (\<lambda>a b ci. False) \<rparr>"

text \<open>\<open>wow64_os Peb32\<close> answers every query of the compatibility flag with \<open>Peb32\<close>.\<close>

definition wow64_os :: "'a::len word \<Rightarrow> (unit, 'a word) nt_os" where
  "wow64_os Peb32 = os_none
     \<lparr> NtQueryInformationProcess_Wow64 := (\<lambda>h s. ((STATUS_SUCCESS, Peb32), s)) \<rparr>"

subsection \<open>A paged address space\<close>

text \<open>
  The address space of the target process, in pages of 4096 bytes: the protection of
  every committed page, the byte at every address, and a schedule of refusals.  Each
  call takes the head of the schedule; when it is \<open>True\<close> the call is refused with
  \<^verbatim>\<open>STATUS_ACCESS_DENIED\<close> and changes nothing else (the handle lost its access right,
  the process is exiting).

  \<open>vm_NtProtectVirtualMemory\<close> rounds the range to page boundaries, fails when the range
  is empty, wraps around or holds a page that is not committed, and otherwise sets the
  protection of every page of the range, reporting the rounded range and the old
  protection of its first page.  \<open>vm_NtWriteVirtualMemory\<close> copies the buffer when every
  page of the range is writable and copies nothing otherwise.
\<close>

record vm =
  vm_prot :: "nat \<Rightarrow> ULONG option"
  vm_byte :: "nat \<Rightarrow> BYTE"
  vm_refuse :: "bool list"

definition vm_next :: "vm \<Rightarrow> bool \<times> vm" where
  "vm_next s = (case vm_refuse s of [] \<Rightarrow> (False, s) | r # rs \<Rightarrow> (r, s\<lparr>vm_refuse := rs\<rparr>))"

definition vm_pages :: "nat \<Rightarrow> nat \<Rightarrow> nat list" where
  "vm_pages a n = [a div 4096 ..< Suc ((a + n - 1) div 4096)]"

definition vm_writable :: "ULONG \<Rightarrow> bool" where
  "vm_writable p = (p = 0x04 \<or> p = 0x08 \<or> p = 0x40 \<or> p = 0x80)"

definition vm_NtProtectVirtualMemory ::
  "'a::len word \<Rightarrow> 'a word \<Rightarrow> 'a word \<Rightarrow> ULONG \<Rightarrow> vm
    \<Rightarrow> (NTSTATUS \<times> 'a word \<times> 'a word \<times> ULONG) \<times> vm" where
  "vm_NtProtectVirtualMemory h BaseAddress RegionSize NewProtect s0 =
    (case vm_next s0 of
      (refused, s) \<Rightarrow>
        if refused then ((STATUS_ACCESS_DENIED, BaseAddress, RegionSize, 0), s)
        else if RegionSize = 0 \<or> 2 ^ LENGTH('a) < unat BaseAddress + unat RegionSize
        then ((STATUS_INVALID_PARAMETER, BaseAddress, RegionSize, 0), s)
        else
          (let ps = vm_pages (unat BaseAddress) (unat RegionSize)
           in
             case vm_prot s (unat BaseAddress div 4096) of
               None \<Rightarrow> ((STATUS_NOT_COMMITTED, BaseAddress, RegionSize, 0), s)
             | Some OldProtect \<Rightarrow>
                 if list_all (\<lambda>p. vm_prot s p \<noteq> None) ps
                 then ((STATUS_SUCCESS,
                        of_nat (4096 * (unat BaseAddress div 4096)),
                        of_nat (4096 * length ps),
                        OldProtect),
                       s\<lparr>vm_prot := (\<lambda>p. if p \<in> set ps then Some NewProtect
                                          else vm_prot s p)\<rparr>)
                 else ((STATUS_NOT_COMMITTED, BaseAddress, RegionSize, 0), s)))"

definition vm_NtWriteVirtualMemory ::
  "'a::len word \<Rightarrow> 'a word \<Rightarrow> BYTE list \<Rightarrow> 'a word \<Rightarrow> vm \<Rightarrow> NTSTATUS \<times> vm" where
  "vm_NtWriteVirtualMemory h BaseAddress Buffer NumberOfBytesToWrite s0 =
    (case vm_next s0 of
      (refused, s) \<Rightarrow>
        if refused then (STATUS_ACCESS_DENIED, s)
        else if length Buffer < unat NumberOfBytesToWrite then (STATUS_ACCESS_VIOLATION, s)
        else if NumberOfBytesToWrite = 0 then (STATUS_SUCCESS, s)
        else if 2 ^ LENGTH('a) < unat BaseAddress + unat NumberOfBytesToWrite
        then (STATUS_ACCESS_VIOLATION, s)
        else if list_all (\<lambda>p. case vm_prot s p of None \<Rightarrow> False | Some pr \<Rightarrow> vm_writable pr)
                  (vm_pages (unat BaseAddress) (unat NumberOfBytesToWrite))
        then (STATUS_SUCCESS,
              s\<lparr>vm_byte := (\<lambda>a. if unat BaseAddress \<le> a
                                    \<and> a < unat BaseAddress + unat NumberOfBytesToWrite
                                 then Buffer ! (a - unat BaseAddress)
                                 else vm_byte s a)\<rparr>)
        else (STATUS_PARTIAL_COPY, s))"

definition vm_os :: "(vm, 'a::len word) nt_os" where
  "vm_os = os_none
     \<lparr> NtProtectVirtualMemory := vm_NtProtectVirtualMemory,
       NtWriteVirtualMemory := vm_NtWriteVirtualMemory \<rparr>"

text \<open>
  A page of read-only memory at \<open>0x400000\<close>, filled with zeroes, and a schedule of
  refusals.
\<close>

definition vm_page_ro :: "bool list \<Rightarrow> vm" where
  "vm_page_ro refusals =
    \<lparr> vm_prot = (\<lambda>p. if p = 0x400 then Some PAGE_READONLY else None),
      vm_byte = (\<lambda>a. 0),
      vm_refuse = refusals \<rparr>"

subsection \<open>An address space with one mapped file\<close>

text \<open>
  One file is mapped at \<open>base\<close>, over \<open>extent\<close> bytes, as a region of type \<open>ty\<close> with
  the path \<open>name\<close>; the loader answers \<open>ldr\<close> to every lookup.  Strings are compared
  by the upper case of their ASCII letters.  In \<open>region_os\<close> the mapping stays.  In
  \<open>unmap_os\<close> the state tells whether the file is still mapped, and the mapping is
  removed (by another thread of the process) right after the first query of its file
  name has been answered; the basic information of an address where nothing is mapped
  describes a free region, with a null allocation base.  In \<open>remap_os\<close> the state tells
  whether the first file is still mapped: right after the first query of its name has
  been answered, another thread of the process unmaps it and maps the image of the file
  \<open>name'\<close> at the same address.
\<close>

definition upcase :: "WCHAR \<Rightarrow> WCHAR" where
  "upcase c = (if 0x61 \<le> c \<and> c \<le> 0x7A then c - 0x20 else c)"

definition equal_upcase :: "UNICODE_STRING \<Rightarrow> UNICODE_STRING \<Rightarrow> bool \<Rightarrow> bool" where
  "equal_upcase a b CaseInsensitive =
    (if CaseInsensitive then map upcase a = map upcase b else a = b)"

definition region_os ::
  "'a::len word \<Rightarrow> 'a word \<Rightarrow> ULONG \<Rightarrow> UNICODE_STRING \<Rightarrow> NTSTATUS \<times> 'a word
    \<Rightarrow> (unit, 'a word) nt_os" where
  "region_os base extent ty name ldr = os_none
     \<lparr> LdrGetDllHandleByName := (\<lambda>n s. (ldr, s)),
       NtQueryVirtualMemory_MappedFilename :=
         (\<lambda>h a l s. if base \<le> a \<and> a - base < extent then ((STATUS_SUCCESS, name), s)
                    else ((STATUS_INVALID_ADDRESS, []), s)),
       NtQueryVirtualMemory_Basic :=
         (\<lambda>h a s. if base \<le> a \<and> a - base < extent
                  then ((STATUS_SUCCESS, \<lparr>AllocationBase = base, Type = ty\<rparr>), s)
                  else ((STATUS_SUCCESS, \<lparr>AllocationBase = 0, Type = 0\<rparr>), s)),
       RtlEqualUnicodeString := equal_upcase \<rparr>"

definition unmap_os ::
  "'a::len word \<Rightarrow> 'a word \<Rightarrow> ULONG \<Rightarrow> UNICODE_STRING \<Rightarrow> (bool, 'a word) nt_os" where
  "unmap_os base extent ty name = os_none
     \<lparr> NtQueryVirtualMemory_MappedFilename :=
         (\<lambda>h a l mapped. if mapped \<and> base \<le> a \<and> a - base < extent
                         then ((STATUS_SUCCESS, name), False)
                         else ((STATUS_INVALID_ADDRESS, []), mapped)),
       NtQueryVirtualMemory_Basic :=
         (\<lambda>h a mapped. if mapped \<and> base \<le> a \<and> a - base < extent
                       then ((STATUS_SUCCESS, \<lparr>AllocationBase = base, Type = ty\<rparr>), mapped)
                       else ((STATUS_SUCCESS, \<lparr>AllocationBase = 0, Type = 0\<rparr>), mapped)),
       RtlEqualUnicodeString := equal_upcase \<rparr>"


text \<open>
  The path of a file of the system directory \<open>root\<close> on the first volume, and five
  address spaces: \<open>kernel32_os\<close> and \<open>ntdll_os\<close>, with an image at the top of the range
  searched and a loader that finds nothing; \<open>winnt_os\<close>, where the system directory is
  not named \<open>Windows\<close> and the loader reports the image; \<open>racing_os\<close>, where the image at
  the top of the range is unmapped while it is being examined; \<open>swapping_os\<close>, where an
  image of \<^verbatim>\<open>ntdll.dll\<close> at the top of the range is replaced by the image of
  \<^verbatim>\<open>kernel32.dll\<close> while it is being examined.
\<close>

definition device_path :: "string \<Rightarrow> string \<Rightarrow> UNICODE_STRING" where
  "device_path root file =
     [0x5C] @ L ''Device'' @ [0x5C] @ L ''HarddiskVolume1'' @ [0x5C] @ L root @ [0x5C]
     @ L ''System32'' @ [0x5C] @ L file"

definition kernel32_os :: "(unit, 'a::len word) nt_os" where
  "kernel32_os = region_os 0x7FFC0000 0x20000 MEM_IMAGE
     (device_path ''Windows'' ''kernel32.dll'') (STATUS_ACCESS_DENIED, 0)"



definition racing_os :: "(bool, 'a::len word) nt_os" where
  "racing_os = unmap_os 0x7FFC0000 0x20000 MEM_IMAGE
     (device_path ''Windows'' ''kernel32.dll'')"


subsection \<open>An image with two exports\<close>

text \<open>
  The image, by offset from its base: the export directory at \<open>0x1000\<close> with two names,
  the address table at \<open>0x1100\<close>, the name table at \<open>0x1200\<close>, the ordinal table at
  \<open>0x1300\<close>, the names \<open>Bar\<close> (ordinal 1) and \<open>Foo\<close> (ordinal 0) at \<open>0x1400\<close> and
  \<open>0x1410\<close>.  Ordinal 0 is the function at offset \<open>0x2000\<close>, ordinal 1 the one at
  \<open>0x3000\<close>.
\<close>

definition place :: "nat \<Rightarrow> BYTE list \<Rightarrow> (nat \<Rightarrow> BYTE) \<Rightarrow> nat \<Rightarrow> BYTE" where
  "place off bs f = (\<lambda>a. if off \<le> a \<and> a < off + length bs then bs ! (a - off) else f a)"

definition le32 :: "nat \<Rightarrow> BYTE list" where
  "le32 n = [of_nat (n mod 256), of_nat (n div 256 mod 256),
             of_nat (n div 65536 mod 256), of_nat (n div 16777216 mod 256)]"

definition le16 :: "nat \<Rightarrow> BYTE list" where
  "le16 n = [of_nat (n mod 256), of_nat (n div 256 mod 256)]"

definition cstr :: "string \<Rightarrow> BYTE list" where
  "cstr s = map of_char s @ [0]"

definition demo_offsets :: "nat \<Rightarrow> BYTE" where
  "demo_offsets =
     place 0x1018 (le32 2)
    (place 0x101C (le32 0x1100)
    (place 0x1020 (le32 0x1200)
    (place 0x1024 (le32 0x1300)
    (place 0x1100 (le32 0x2000 @ le32 0x3000)
    (place 0x1200 (le32 0x1400 @ le32 0x1410)
    (place 0x1300 (le16 1 @ le16 0)
    (place 0x1400 (cstr ''Bar'')
    (place 0x1410 (cstr ''Foo'') (\<lambda>a. 0)))))))))"

definition demo_image :: "'a::len word \<Rightarrow> 'a word \<Rightarrow> BYTE" where
  "demo_image B = (\<lambda>a. demo_offsets (unat (a - B)))"

definition demo_directory :: "('a::len word \<Rightarrow> BYTE) \<Rightarrow> 'a word \<Rightarrow> 'a word" where
  "demo_directory m DllBase = DllBase + 0x1000"

section \<open>Status codes\<close>

lemmas status_defs =
  STATUS_SUCCESS_def STATUS_INVALID_PARAMETER_def STATUS_INVALID_IMAGE_FORMAT_def
  STATUS_ENTRYPOINT_NOT_FOUND_def STATUS_ACCESS_DENIED_def STATUS_NOT_COMMITTED_def
  STATUS_PARTIAL_COPY_def STATUS_ACCESS_VIOLATION_def STATUS_INVALID_ADDRESS_def

lemma NT_SUCCESS_simps:
  "NT_SUCCESS STATUS_SUCCESS" "\<not> NT_SUCCESS STATUS_ACCESS_DENIED"
  "\<not> NT_SUCCESS STATUS_INVALID_PARAMETER" "\<not> NT_SUCCESS STATUS_NOT_COMMITTED"
  "\<not> NT_SUCCESS STATUS_PARTIAL_COPY" "\<not> NT_SUCCESS STATUS_ACCESS_VIOLATION"
  "\<not> NT_SUCCESS STATUS_INVALID_ADDRESS"
  by (simp_all add: NT_SUCCESS_def status_defs)

section \<open>The word width of a process\<close>

text \<open>
  C2.  For every process handle, \<open>KexRtlRemoteProcessBitness\<close> returns 32 or 64.  When
  the width of the operating system is 32 it returns 32 and makes no system call.
  Otherwise it queries the compatibility flag of the process once and returns 32 exactly
  when the query succeeds with a non-zero flag, and 64 when the flag is zero or the
  query fails.
\<close>

theorem KexRtlRemoteProcessBitness_width:
  fixes os :: "('s, 'a::len word) nt_os"
  shows "case KexRtlRemoteProcessBitness os osb h s of (r, s', tr) \<Rightarrow>
     (r = 32 \<or> r = 64) \<and>
     (osb = 32 \<longrightarrow> r = 32 \<and> s' = s \<and> tr = []) \<and>
     (osb \<noteq> 32 \<longrightarrow>
        (case NtQueryInformationProcess_Wow64 os h s of ((Status, Peb32), s1) \<Rightarrow>
           (r = 32 \<longleftrightarrow> NT_SUCCESS Status \<and> Peb32 \<noteq> 0) \<and>
           (r = 64 \<longleftrightarrow> \<not> (NT_SUCCESS Status \<and> Peb32 \<noteq> 0)) \<and>
           s' = s1 \<and> tr = [(Call_QueryWow64 h, Status)]))"
  by (auto simp: KexRtlRemoteProcessBitness_def split: prod.splits)

theorem KexRtlRemoteProcessBitness_width_witness:
  "KexRtlRemoteProcessBitness (os_none :: (unit, 32 word) nt_os) 32 0x30 () = (32, (), []) \<and>
   KexRtlRemoteProcessBitness (wow64_os (0x7EFDE000 :: 64 word)) 64 0x30 ()
     = (32, (), [(Call_QueryWow64 0x30, STATUS_SUCCESS)]) \<and>
   KexRtlRemoteProcessBitness (wow64_os (0 :: 64 word)) 64 0x30 ()
     = (64, (), [(Call_QueryWow64 0x30, STATUS_SUCCESS)]) \<and>
   KexRtlRemoteProcessBitness (os_none :: (unit, 64 word) nt_os) 64 0x30 ()
     = (64, (), [(Call_QueryWow64 0x30, STATUS_ACCESS_DENIED)])"
  using
    KexRtlRemoteProcessBitness_width
      [where os = "os_none :: (unit, 32 word) nt_os" and osb = 32 and h = "0x30" and s = "()"]
    KexRtlRemoteProcessBitness_width
      [where os = "wow64_os (0x7EFDE000 :: 64 word)" and osb = 64 and h = "0x30" and s = "()"]
    KexRtlRemoteProcessBitness_width
      [where os = "wow64_os (0 :: 64 word)" and osb = 64 and h = "0x30" and s = "()"]
    KexRtlRemoteProcessBitness_width
      [where os = "os_none :: (unit, 64 word) nt_os" and osb = 64 and h = "0x30" and s = "()"]
  by (simp add: wow64_os_def os_none_def NT_SUCCESS_def status_defs split: prod.splits)

section \<open>Writing into a process\<close>

text \<open>The two runs of \<open>KexRtlWriteProcessMemory\<close>, by the outcome of its first call.\<close>

lemma KexRtlWriteProcessMemory_run:
  fixes os :: "('s, 'a::len word) nt_os"
  assumes "NtProtectVirtualMemory os h Dst Cb PAGE_READWRITE s = ((stP, base', size', old), sP)"
  shows "\<not> NT_SUCCESS stP \<Longrightarrow>
            KexRtlWriteProcessMemory os h Dst Src Cb s =
              (stP, sP, [(Call_Protect h Dst Cb PAGE_READWRITE, stP)])"
    and "NT_SUCCESS stP \<Longrightarrow> NtWriteVirtualMemory os h Dst Src Cb sP = (stW, sW) \<Longrightarrow>
               NtProtectVirtualMemory os h base' size' old sW = ((stR, outR), sR) \<Longrightarrow>
               KexRtlWriteProcessMemory os h Dst Src Cb s =
                 (stW, sR, [(Call_Protect h Dst Cb PAGE_READWRITE, stP),
                            (Call_Write h Dst Src Cb, stW),
                            (Call_Protect h base' size' old, stR)])"
  using assms by (auto simp: KexRtlWriteProcessMemory_def Let_def split: prod.splits)

lemmas vm_defs =
  vm_os_def os_none_def vm_NtProtectVirtualMemory_def vm_NtWriteVirtualMemory_def
  vm_next_def vm_page_ro_def vm_pages_def vm_writable_def PAGE_READONLY_def
  PAGE_READWRITE_def

text \<open>
  C7.  Let the first protection change return status \<open>stP\<close>, the range \<open>base'\<close>,
  \<open>size'\<close> and the old protection \<open>old\<close>, leaving the system in state \<open>sP\<close>.  When
  \<open>stP\<close> is a failure the routine returns \<open>stP\<close>, its only call is that protection
  change (no write, no restore), and the state is the one the failed call left.
  Otherwise the write is attempted, then the restore of \<open>old\<close> whatever the status
  \<open>stW\<close> of the write, and the routine returns \<open>stW\<close> whatever the status \<open>stR\<close> of
  the restore.
\<close>

theorem KexRtlWriteProcessMemory_error_path:
  fixes os :: "('s, 'a::len word) nt_os"
  assumes "NtProtectVirtualMemory os h Dst Cb PAGE_READWRITE s = ((stP, base', size', old), sP)"
  shows "(\<not> NT_SUCCESS stP \<longrightarrow>
            KexRtlWriteProcessMemory os h Dst Src Cb s =
              (stP, sP, [(Call_Protect h Dst Cb PAGE_READWRITE, stP)])) \<and>
         (NT_SUCCESS stP \<longrightarrow>
            (\<exists>stW sW stR outR sR.
               NtWriteVirtualMemory os h Dst Src Cb sP = (stW, sW) \<and>
               NtProtectVirtualMemory os h base' size' old sW = ((stR, outR), sR) \<and>
               KexRtlWriteProcessMemory os h Dst Src Cb s =
                 (stW, sR, [(Call_Protect h Dst Cb PAGE_READWRITE, stP),
                            (Call_Write h Dst Src Cb, stW),
                            (Call_Protect h base' size' old, stR)])))"
proof (intro conjI impI)
  assume "\<not> NT_SUCCESS stP"
  then show "KexRtlWriteProcessMemory os h Dst Src Cb s =
      (stP, sP, [(Call_Protect h Dst Cb PAGE_READWRITE, stP)])"
    by (rule KexRtlWriteProcessMemory_run(1) [OF assms])
next
  assume ok: "NT_SUCCESS stP"
  obtain stW sW where w: "NtWriteVirtualMemory os h Dst Src Cb sP = (stW, sW)"
    by (metis surj_pair)
  obtain stR outR sR where
    r: "NtProtectVirtualMemory os h base' size' old sW = ((stR, outR), sR)"
    by (metis surj_pair)
  from KexRtlWriteProcessMemory_run(2) [OF assms ok w r] w r
  show "\<exists>stW sW stR outR sR.
      NtWriteVirtualMemory os h Dst Src Cb sP = (stW, sW) \<and>
      NtProtectVirtualMemory os h base' size' old sW = ((stR, outR), sR) \<and>
      KexRtlWriteProcessMemory os h Dst Src Cb s =
        (stW, sR, [(Call_Protect h Dst Cb PAGE_READWRITE, stP),
                   (Call_Write h Dst Src Cb, stW),
                   (Call_Protect h base' size' old, stR)])"
    by blast
qed

text \<open>
  Three runs on the read-only page.  With the first call refused, the routine returns
  the refusal after that single call and the page is as before.  With the write refused
  and the restore granted, it returns the refusal of the write after all three calls.
  With the write granted and the restore refused, it returns the success of the write.
\<close>

theorem KexRtlWriteProcessMemory_error_path_witness:
  "KexRtlWriteProcessMemory (vm_os :: (vm, 32 word) nt_os) 0x30 0x400010 [0x90, 0x91] 2
      (vm_page_ro [True])
    = (STATUS_ACCESS_DENIED, vm_page_ro [],
       [(Call_Protect 0x30 0x400010 2 PAGE_READWRITE, STATUS_ACCESS_DENIED)]) \<and>
   fst (KexRtlWriteProcessMemory (vm_os :: (vm, 32 word) nt_os) 0x30 0x400010 [0x90, 0x91] 2
      (vm_page_ro [False, True, False])) = STATUS_ACCESS_DENIED \<and>
   snd (snd (KexRtlWriteProcessMemory (vm_os :: (vm, 32 word) nt_os) 0x30 0x400010
      [0x90, 0x91] 2 (vm_page_ro [False, True, False])))
    = [(Call_Protect 0x30 0x400010 2 PAGE_READWRITE, STATUS_SUCCESS),
       (Call_Write 0x30 0x400010 [0x90, 0x91] 2, STATUS_ACCESS_DENIED),
       (Call_Protect 0x30 0x400000 0x1000 PAGE_READONLY, STATUS_SUCCESS)] \<and>
   fst (KexRtlWriteProcessMemory (vm_os :: (vm, 32 word) nt_os) 0x30 0x400010 [0x90, 0x91] 2
      (vm_page_ro [False, False, True])) = STATUS_SUCCESS \<and>
   snd (snd (KexRtlWriteProcessMemory (vm_os :: (vm, 32 word) nt_os) 0x30 0x400010
      [0x90, 0x91] 2 (vm_page_ro [False, False, True])))
    = [(Call_Protect 0x30 0x400010 2 PAGE_READWRITE, STATUS_SUCCESS),
       (Call_Write 0x30 0x400010 [0x90, 0x91] 2, STATUS_SUCCESS),
       (Call_Protect 0x30 0x400000 0x1000 PAGE_READONLY, STATUS_ACCESS_DENIED)]"
  using
    KexRtlWriteProcessMemory_error_path
      [where os = "vm_os :: (vm, 32 word) nt_os" and h = "0x30" and Dst = "0x400010"
         and Cb = 2 and s = "vm_page_ro [True]" and Src = "[0x90, 0x91]"
         and stP = STATUS_ACCESS_DENIED and base' = "0x400010" and size' = 2 and old = 0
         and sP = "vm_page_ro []"]
    KexRtlWriteProcessMemory_error_path
      [where os = "vm_os :: (vm, 32 word) nt_os" and h = "0x30" and Dst = "0x400010"
         and Cb = 2 and s = "vm_page_ro [False, True, False]" and Src = "[0x90, 0x91]"
         and stP = STATUS_SUCCESS and base' = "0x400000" and size' = "0x1000"
         and old = PAGE_READONLY
         and sP = "snd (vm_NtProtectVirtualMemory (0x30 :: 32 word) (0x400010 :: 32 word)
                        (2 :: 32 word) PAGE_READWRITE (vm_page_ro [False, True, False]))"]
    KexRtlWriteProcessMemory_error_path
      [where os = "vm_os :: (vm, 32 word) nt_os" and h = "0x30" and Dst = "0x400010"
         and Cb = 2 and s = "vm_page_ro [False, False, True]" and Src = "[0x90, 0x91]"
         and stP = STATUS_SUCCESS and base' = "0x400000" and size' = "0x1000"
         and old = PAGE_READONLY
         and sP = "snd (vm_NtProtectVirtualMemory (0x30 :: 32 word) (0x400010 :: 32 word)
                        (2 :: 32 word) PAGE_READWRITE (vm_page_ro [False, False, True]))"]
  by (simp add: vm_defs NT_SUCCESS_def status_defs)

text \<open>
  C10.  When the first protection change succeeds, with the range \<open>base'\<close>, \<open>size'\<close>
  and the old protection \<open>old\<close> reported back, the whole outcome of the routine is
  fixed: the write is made in the state \<open>sP\<close> that call left, the restoring call is the
  protection change of the range \<open>base'\<close>, \<open>size'\<close> to the protection \<open>old\<close> (the range
  and the old protection reported by the first call, not the \<open>Dst\<close> and \<open>Cb\<close> of the
  caller), made in the state the write left; the state at the return is the state that
  restoring call left, and the three calls are the only ones.
\<close>

theorem KexRtlWriteProcessMemory_restore_range:
  fixes os :: "('s, 'a::len word) nt_os"
  assumes "NtProtectVirtualMemory os h Dst Cb PAGE_READWRITE s = ((stP, base', size', old), sP)"
    and "NT_SUCCESS stP"
  shows "KexRtlWriteProcessMemory os h Dst Src Cb s =
           (case NtWriteVirtualMemory os h Dst Src Cb sP of
              (stW, sW) \<Rightarrow>
                (case NtProtectVirtualMemory os h base' size' old sW of
                   ((stR, outR), sR) \<Rightarrow>
                     (stW, sR, [(Call_Protect h Dst Cb PAGE_READWRITE, stP),
                                (Call_Write h Dst Src Cb, stW),
                                (Call_Protect h base' size' old, stR)])))"
proof -
  obtain stW sW where w: "NtWriteVirtualMemory os h Dst Src Cb sP = (stW, sW)"
    by (metis surj_pair)
  obtain stR outR sR where
    r: "NtProtectVirtualMemory os h base' size' old sW = ((stR, outR), sR)"
    by (metis surj_pair)
  show ?thesis
    by (simp add: KexRtlWriteProcessMemory_run(2) [OF assms w r] w r)
qed

text \<open>
  Two bytes written at \<open>0x400010\<close> on the read-only page.  The first call reports the
  page, \<open>0x1000\<close> bytes at \<open>0x400000\<close>, and the read-only protection; the state at the
  return is the one left by the protection change of that page to read-only, made after
  the write; the page, which is readable and writable after the write, is read-only at
  the return.
\<close>

theorem KexRtlWriteProcessMemory_restore_range_witness:
  "fst (vm_NtProtectVirtualMemory (0x30 :: 32 word) (0x400010 :: 32 word) (2 :: 32 word)
          PAGE_READWRITE (vm_page_ro []))
     = (STATUS_SUCCESS, 0x400000, 0x1000, PAGE_READONLY) \<and>
   KexRtlWriteProcessMemory (vm_os :: (vm, 32 word) nt_os) 0x30 0x400010 [0x90, 0x91] 2
      (vm_page_ro [])
    = (STATUS_SUCCESS,
       snd (vm_NtProtectVirtualMemory (0x30 :: 32 word) (0x400000 :: 32 word) (0x1000 :: 32 word)
              PAGE_READONLY
         (snd (vm_NtWriteVirtualMemory (0x30 :: 32 word) (0x400010 :: 32 word) [0x90, 0x91]
                 (2 :: 32 word)
            (snd (vm_NtProtectVirtualMemory (0x30 :: 32 word) (0x400010 :: 32 word)
                    (2 :: 32 word) PAGE_READWRITE (vm_page_ro [])))))),
       [(Call_Protect 0x30 0x400010 2 PAGE_READWRITE, STATUS_SUCCESS),
        (Call_Write 0x30 0x400010 [0x90, 0x91] 2, STATUS_SUCCESS),
        (Call_Protect 0x30 0x400000 0x1000 PAGE_READONLY, STATUS_SUCCESS)]) \<and>
   vm_prot (fst (snd (KexRtlWriteProcessMemory (vm_os :: (vm, 32 word) nt_os) 0x30 0x400010
      [0x90, 0x91] 2 (vm_page_ro [])))) 0x400 = Some PAGE_READONLY \<and>
   vm_prot (snd (vm_NtWriteVirtualMemory (0x30 :: 32 word) (0x400010 :: 32 word) [0x90, 0x91]
                 (2 :: 32 word)
            (snd (vm_NtProtectVirtualMemory (0x30 :: 32 word) (0x400010 :: 32 word)
                    (2 :: 32 word) PAGE_READWRITE (vm_page_ro []))))) 0x400 = Some PAGE_READWRITE"
  using
    KexRtlWriteProcessMemory_restore_range
      [where os = "vm_os :: (vm, 32 word) nt_os" and h = "0x30" and Dst = "0x400010"
         and Cb = 2 and s = "vm_page_ro []" and Src = "[0x90, 0x91]"
         and stP = STATUS_SUCCESS and base' = "0x400000" and size' = "0x1000"
         and old = PAGE_READONLY
         and sP = "snd (vm_NtProtectVirtualMemory (0x30 :: 32 word) (0x400010 :: 32 word)
                        (2 :: 32 word) PAGE_READWRITE (vm_page_ro []))"]
  by (simp add: vm_defs NT_SUCCESS_def status_defs)

subsection \<open>The paged address space\<close>

lemma vm_next_fields: "vm_next s = (r, s') \<Longrightarrow> vm_prot s' = vm_prot s \<and> vm_byte s' = vm_byte s"
  by (auto simp: vm_next_def split: list.splits)

lemma vm_protect_success:
  fixes b n :: "'a::len word"
  assumes "vm_NtProtectVirtualMemory h b n p s = ((st, b', n', old), s')" and "NT_SUCCESS st"
  shows "vm_prot s (unat b div 4096) = Some old"
    and "b' = of_nat (4096 * (unat b div 4096))"
    and "n' = of_nat (4096 * length (vm_pages (unat b) (unat n)))"
    and "n \<noteq> 0" and "unat b + unat n \<le> 2 ^ LENGTH('a)"
    and "vm_prot s' = (\<lambda>q. if q \<in> set (vm_pages (unat b) (unat n)) then Some p else vm_prot s q)"
    and "vm_byte s' = vm_byte s"
  using assms
  by (auto simp: vm_NtProtectVirtualMemory_def Let_def NT_SUCCESS_simps
           split: prod.splits if_splits option.splits dest!: vm_next_fields)

lemma vm_write_success:
  fixes b n :: "'a::len word"
  assumes "vm_NtWriteVirtualMemory h b buf n s = (st, s')" and "NT_SUCCESS st"
  shows "unat n \<le> length buf" and "vm_prot s' = vm_prot s"
    and "\<forall>i < unat n. vm_byte s' (unat b + i) = buf ! i"
  using assms
  by (auto simp: vm_NtWriteVirtualMemory_def Let_def NT_SUCCESS_simps
           split: prod.splits if_splits dest!: vm_next_fields)

lemma vm_pages_aligned: "0 < n \<Longrightarrow> vm_pages (4096 * f) (4096 * n) = [f ..< f + n]"
proof -
  assume n: "0 < n"
  have "4096 * f + 4096 * n - 1 = 4096 * (f + n - 1) + 4095" using n by (cases n) auto
  then have "(4096 * f + 4096 * n - 1) div 4096 = f + n - 1" by simp
  with n show ?thesis by (simp add: vm_pages_def)
qed

lemma vm_pages_upt: "0 < c \<Longrightarrow> vm_pages d c = [d div 4096 ..< d div 4096 + length (vm_pages d c)]"
proof -
  assume "0 < c"
  then have "d div 4096 \<le> (d + c - 1) div 4096" by (intro div_le_mono) simp
  then show ?thesis by (simp add: vm_pages_def)
qed

lemma vm_pages_nonempty: "0 < c \<Longrightarrow> 0 < length (vm_pages d c)"
proof -
  assume "0 < c"
  then have "d div 4096 \<le> (d + c - 1) div 4096" by (intro div_le_mono) simp
  then show ?thesis by (simp add: vm_pages_def)
qed

lemma vm_pages_end: "0 < c \<Longrightarrow> 4096 * (d div 4096 + length (vm_pages d c)) = 4096 * Suc ((d + c - 1) div 4096)"
proof -
  assume "0 < c"
  then have "d div 4096 \<le> (d + c - 1) div 4096" by (intro div_le_mono) simp
  then show ?thesis by (simp add: vm_pages_def)
qed

lemma vm_pages_size_fits:
  assumes le: "D + C \<le> 2 ^ LENGTH('a::len)" and C: "0 < C"
    and nz: "(of_nat (4096 * length (vm_pages D C)) :: 'a word) \<noteq> 0"
  shows "4096 * length (vm_pages D C) < 2 ^ LENGTH('a)"
proof (cases "12 \<le> LENGTH('a)")
  case True
  define k where "k = LENGTH('a) - 12"
  have pw: "(2::nat) ^ LENGTH('a) = 4096 * 2 ^ k"
  proof -
    have "(2::nat) ^ LENGTH('a) = 2 ^ (12 + k)" using True by (simp add: k_def)
    also have "\<dots> = 2 ^ 12 * 2 ^ k" by (rule power_add)
    finally show ?thesis by simp
  qed
  have "D + C - 1 < 4096 * 2 ^ k" using le C pw by simp
  then have "(D + C - 1) div 4096 < 2 ^ k" by (simp add: div_less_iff_less_mult)
  then have "4096 * Suc ((D + C - 1) div 4096) \<le> 4096 * 2 ^ k" by simp
  then have "4096 * (D div 4096 + length (vm_pages D C)) \<le> 2 ^ LENGTH('a)"
    using vm_pages_end [OF C, of D] pw by simp
  then have bound: "4096 * length (vm_pages D C) \<le> 2 ^ LENGTH('a)" by simp
  have "4096 * length (vm_pages D C) \<noteq> 2 ^ LENGTH('a)"
  proof
    assume "4096 * length (vm_pages D C) = 2 ^ LENGTH('a)"
    then have "(of_nat (4096 * length (vm_pages D C)) :: 'a word) = of_nat (2 ^ LENGTH('a))"
      by simp
    then show False using nz by simp
  qed
  with bound show ?thesis by simp
next
  case False
  then have "LENGTH('a) \<le> 12" by simp
  then have "(2::nat) ^ LENGTH('a) dvd 2 ^ 12" by (rule le_imp_power_dvd)
  then have "(2::nat) ^ LENGTH('a) dvd 4096 * length (vm_pages D C)" by simp
  then have "(of_nat (4096 * length (vm_pages D C)) :: 'a word) = 0"
    by (simp add: word_of_nat_eq_0_iff del: of_nat_mult)
  with nz show ?thesis by simp
qed

text \<open>
  C1, as amended.  On the paged address space: when the routine returns success for a
  destination whose pages were all read-only, and its restoring call succeeded too, the
  destination holds the source bytes and the protection of every page is what it was
  before the call.
\<close>

theorem KexRtlWriteProcessMemory_restores:
  fixes Dst Cb :: "'a::len word"
  assumes run: "KexRtlWriteProcessMemory vm_os h Dst Src Cb s = (Status, s', tr)"
    and ok: "NT_SUCCESS Status"
    and ro: "\<forall>p \<in> set (vm_pages (unat Dst) (unat Cb)). vm_prot s p = Some PAGE_READONLY"
    and restored: "NT_SUCCESS (snd (last tr))"
  shows "(\<forall>i < unat Cb. vm_byte s' (unat Dst + i) = Src ! i) \<and> vm_prot s' = vm_prot s"
proof -
  obtain st1 base' size' old s1 where
    p1: "vm_NtProtectVirtualMemory h Dst Cb PAGE_READWRITE s = ((st1, base', size', old), s1)"
    by (metis prod_cases4 surj_pair)
  obtain st2 s2 where w: "vm_NtWriteVirtualMemory h Dst Src Cb s1 = (st2, s2)"
    by (metis surj_pair)
  obtain st3 b3 n3 o3 s3 where
    p2: "vm_NtProtectVirtualMemory h base' size' old s2 = ((st3, b3, n3, o3), s3)"
    by (metis prod_cases4 surj_pair)
  have os1: "NtProtectVirtualMemory (vm_os :: (vm, 'a word) nt_os) = vm_NtProtectVirtualMemory"
    and os2: "NtWriteVirtualMemory (vm_os :: (vm, 'a word) nt_os) = vm_NtWriteVirtualMemory"
    by (simp_all add: vm_os_def)
  have st1: "NT_SUCCESS st1"
  proof (rule ccontr)
    assume "\<not> NT_SUCCESS st1"
    then have "Status = st1"
      using KexRtlWriteProcessMemory_run(1) [of vm_os h Dst Cb s st1 base' size' old s1 Src] p1 run
      by (simp add: os1)
    with ok \<open>\<not> NT_SUCCESS st1\<close> show False by simp
  qed
  have full: "KexRtlWriteProcessMemory vm_os h Dst Src Cb s =
      (st2, s3, [(Call_Protect h Dst Cb PAGE_READWRITE, st1), (Call_Write h Dst Src Cb, st2),
                 (Call_Protect h base' size' old, st3)])"
    using KexRtlWriteProcessMemory_run(2) [of vm_os h Dst Cb s st1 base' size' old s1 Src st2 s2 st3 "(b3, n3, o3)" s3]
      p1 w p2 st1 by (simp add: os1 os2)
  with run have eqs: "Status = st2" "s' = s3" "snd (last tr) = st3" by auto
  have st2: "NT_SUCCESS st2" and st3: "NT_SUCCESS st3" using ok restored eqs by simp_all
  let ?D = "unat Dst" and ?C = "unat Cb"
  let ?ps = "vm_pages ?D ?C"
  note P1 = vm_protect_success [OF p1 st1]
  note W = vm_write_success [OF w st2]
  note P2 = vm_protect_success [OF p2 st3]
  have C: "0 < ?C" using P1(4) by (simp add: unat_gt_0)
  have le: "?D + ?C \<le> 2 ^ LENGTH('a)" by (rule P1(5))
  have first: "?D div 4096 \<in> set ?ps"
    using vm_pages_upt [OF C, of ?D] vm_pages_nonempty [OF C, of ?D]
    by (metis atLeastLessThan_iff le_refl less_add_same_cancel1 set_upt)
  have old: "old = PAGE_READONLY" using P1(1) ro first by simp
  have ubase: "unat base' = 4096 * (?D div 4096)"
  proof -
    have "4096 * (?D div 4096) \<le> ?D" by simp
    also have "?D < 2 ^ LENGTH('a)" by (rule unsigned_less)
    finally show ?thesis unfolding P1(2) by (simp add: unat_of_nat del: of_nat_mult)
  qed
  have usize: "unat size' = 4096 * length ?ps"
  proof -
    have "size' \<noteq> 0" by (rule P2(4))
    then have "4096 * length ?ps < 2 ^ LENGTH('a)"
      unfolding P1(3) using vm_pages_size_fits [OF le C] by blast
    then show ?thesis unfolding P1(3) by (simp add: unat_of_nat del: of_nat_mult)
  qed
  have ps': "vm_pages (unat base') (unat size') = ?ps"
    unfolding ubase usize
    using vm_pages_aligned [OF vm_pages_nonempty [OF C, of ?D]] vm_pages_upt [OF C, of ?D]
    by simp
  have prot: "vm_prot s' = vm_prot s"
  proof
    fix q
    show "vm_prot s' q = vm_prot s q"
      using P2(6) W(2) P1(6) ro old eqs(2) ps' by (simp)
  qed
  have bytes: "\<forall>i < ?C. vm_byte s' (?D + i) = Src ! i"
    using W(3) P2(7) eqs(2) by simp
  from bytes prot show ?thesis by simp
qed

text \<open>Two bytes written into the read-only page, with no call refused.\<close>

theorem KexRtlWriteProcessMemory_restores_witness:
  "fst (KexRtlWriteProcessMemory (vm_os :: (vm, 32 word) nt_os) 0x30 0x400010 [0x90, 0x91] 2
      (vm_page_ro [])) = STATUS_SUCCESS \<and>
   vm_byte (fst (snd (KexRtlWriteProcessMemory (vm_os :: (vm, 32 word) nt_os) 0x30 0x400010
      [0x90, 0x91] 2 (vm_page_ro [])))) 0x400010 = 0x90 \<and>
   vm_byte (fst (snd (KexRtlWriteProcessMemory (vm_os :: (vm, 32 word) nt_os) 0x30 0x400010
      [0x90, 0x91] 2 (vm_page_ro [])))) 0x400011 = 0x91 \<and>
   vm_prot (fst (snd (KexRtlWriteProcessMemory (vm_os :: (vm, 32 word) nt_os) 0x30 0x400010
      [0x90, 0x91] 2 (vm_page_ro [])))) = vm_prot (vm_page_ro [])"
proof -
  let ?R = "KexRtlWriteProcessMemory (vm_os :: (vm, 32 word) nt_os) 0x30 0x400010 [0x90, 0x91] 2
      (vm_page_ro [])"
  have run: "?R = (fst ?R, fst (snd ?R), snd (snd ?R))" by simp
  have ok: "NT_SUCCESS (fst ?R)"
    by (simp add: KexRtlWriteProcessMemory_def vm_defs NT_SUCCESS_def status_defs)
  have st: "fst ?R = STATUS_SUCCESS"
    by (simp add: KexRtlWriteProcessMemory_def vm_defs NT_SUCCESS_def status_defs)
  have ro: "\<forall>p \<in> set (vm_pages (unat (0x400010 :: 32 word)) (unat (2 :: 32 word))).
      vm_prot (vm_page_ro []) p = Some PAGE_READONLY"
    by (simp add: vm_defs)
  have restored: "NT_SUCCESS (snd (last (snd (snd ?R))))"
    by (simp add: KexRtlWriteProcessMemory_def vm_defs NT_SUCCESS_def status_defs)
  from KexRtlWriteProcessMemory_restores [OF run ok ro restored]
  have a: "(\<forall>i<unat (2 :: 32 word). vm_byte (fst (snd ?R)) (unat (0x400010 :: 32 word) + i) = [0x90, 0x91] ! i)"
    and p: "vm_prot (fst (snd ?R)) = vm_prot (vm_page_ro [])" by blast+
  from a have b: "\<And>i. i < 2 \<Longrightarrow> vm_byte (fst (snd ?R)) (4194320 + i) = [0x90, 0x91] ! i"
    by simp
  have "vm_byte (fst (snd ?R)) 0x400010 = 0x90" using b [of 0] by simp
  moreover have "vm_byte (fst (snd ?R)) 0x400011 = 0x91" using b [of 1] by simp
  ultimately show ?thesis using st p by simp
qed

text \<open>
  C1 as stated fails when the restoring call is refused: the routine returns success,
  and the page that was read-only before the call is left readable and writable.
\<close>

theorem KexRtlWriteProcessMemory_left_relaxed:
  "fst (KexRtlWriteProcessMemory (vm_os :: (vm, 32 word) nt_os) 0x30 0x400010 [0x90, 0x91] 2
      (vm_page_ro [False, False, True])) = STATUS_SUCCESS \<and>
   NT_SUCCESS STATUS_SUCCESS \<and>
   vm_prot (vm_page_ro [False, False, True]) 0x400 = Some PAGE_READONLY \<and>
   vm_prot (fst (snd (KexRtlWriteProcessMemory (vm_os :: (vm, 32 word) nt_os) 0x30 0x400010
      [0x90, 0x91] 2 (vm_page_ro [False, False, True])))) 0x400 = Some PAGE_READWRITE \<and>
   PAGE_READWRITE \<noteq> PAGE_READONLY"
  by (simp add: KexRtlWriteProcessMemory_def vm_defs NT_SUCCESS_def status_defs)

section \<open>Resolving an export\<close>

lemma word_succ_le: 
  fixes i j :: "'a::len word"
  assumes "i < n" shows "i + 1 \<le> j \<longleftrightarrow> i < j"
  using assms by (simp add: word_le_nat_alt word_less_nat_alt unat_succ_less Suc_le_eq)

lemma KexRtlMiniGetProcedureAddress_loop_found:
  assumes "Index \<le> i" and "i < read_ULONG m (ExportDirectory + 24)"
    and "StringEqualA m Name (RVA_TO_VA DllBase (read_ULONG m (NameRvas + 4 * ucast i)))"
    and "\<forall>j. Index \<le> j \<and> j < i \<longrightarrow>
           \<not> StringEqualA m Name (RVA_TO_VA DllBase (read_ULONG m (NameRvas + 4 * ucast j)))"
  shows "\<exists>acc'. KexRtlMiniGetProcedureAddress_loop m DllBase Name ExportDirectory NameRvas
           FunctionRvas NameOrdinals Index acc =
         (STATUS_SUCCESS,
          RVA_TO_VA DllBase (read_ULONG m (FunctionRvas + 4 * ucast
             (read_USHORT m (NameOrdinals + 2 * ucast i)))), acc')"
  using assms
proof (induction m DllBase Name ExportDirectory NameRvas FunctionRvas NameOrdinals Index acc
       rule: KexRtlMiniGetProcedureAddress_loop.induct)
  case (1 m DllBase ProcedureName ExportDirectory NameRvas FunctionRvas NameOrdinals Index acc)
  have lt: "Index < read_ULONG m (ExportDirectory + 24)" using "1.prems"(1,2) by simp
  show ?case
  proof (cases "Index = i")
    case True
    then show ?thesis
      using "1.prems" lt
      by (subst KexRtlMiniGetProcedureAddress_loop.simps) (simp add: Let_def)
  next
    case False
    then have less: "Index < i" using "1.prems"(1) by simp
    then have nomatch: "\<not> StringEqualA m ProcedureName
        (RVA_TO_VA DllBase (read_ULONG m (NameRvas + 4 * ucast Index)))"
      using "1.prems"(4) by simp
    have next_le: "Index + 1 \<le> i" using less by (simp add: word_succ_le [OF less])
    have rest: "\<forall>j. Index + 1 \<le> j \<and> j < i \<longrightarrow> \<not> StringEqualA m ProcedureName
        (RVA_TO_VA DllBase (read_ULONG m (NameRvas + 4 * ucast j)))"
    proof (intro allI impI)
      fix j
      assume "Index + 1 \<le> j \<and> j < i"
      then have "Index < j" and "j < i" by (simp_all add: word_succ_le [OF less])
      then have "Index \<le> j \<and> j < i" by simp
      with "1.prems"(4) show "\<not> StringEqualA m ProcedureName
          (RVA_TO_VA DllBase (read_ULONG m (NameRvas + 4 * ucast j)))"
        by blast
    qed
    from "1.IH" [OF refl refl lt refl refl nomatch next_le "1.prems"(2,3) rest]
    show ?thesis
      using lt nomatch
      by (subst KexRtlMiniGetProcedureAddress_loop.simps) (simp add: Let_def)
  qed
qed

lemma KexRtlMiniGetProcedureAddress_loop_not_found:
  assumes "\<forall>j. Index \<le> j \<and> j < read_ULONG m (ExportDirectory + 24) \<longrightarrow>
           \<not> StringEqualA m Name (RVA_TO_VA DllBase (read_ULONG m (NameRvas + 4 * ucast j)))"
  shows "\<exists>acc'. KexRtlMiniGetProcedureAddress_loop m DllBase Name ExportDirectory NameRvas
           FunctionRvas NameOrdinals Index acc = (STATUS_ENTRYPOINT_NOT_FOUND, 0, acc')"
  using assms
proof (induction m DllBase Name ExportDirectory NameRvas FunctionRvas NameOrdinals Index acc
       rule: KexRtlMiniGetProcedureAddress_loop.induct)
  case (1 m DllBase ProcedureName ExportDirectory NameRvas FunctionRvas NameOrdinals Index acc)
  show ?case
  proof (cases "Index < read_ULONG m (ExportDirectory + 24)")
    case False
    then show ?thesis
      by (subst KexRtlMiniGetProcedureAddress_loop.simps) (simp add: Let_def)
  next
    case True
    then have nomatch: "\<not> StringEqualA m ProcedureName
        (RVA_TO_VA DllBase (read_ULONG m (NameRvas + 4 * ucast Index)))"
      using "1.prems" by simp
    have rest: "\<forall>j. Index + 1 \<le> j \<and> j < read_ULONG m (ExportDirectory + 24) \<longrightarrow>
        \<not> StringEqualA m ProcedureName
            (RVA_TO_VA DllBase (read_ULONG m (NameRvas + 4 * ucast j)))"
    proof (intro allI impI)
      fix j
      assume "Index + 1 \<le> j \<and> j < read_ULONG m (ExportDirectory + 24)"
      then have "Index < j" and "j < read_ULONG m (ExportDirectory + 24)"
        by (simp_all add: word_succ_le [OF True])
      then have "Index \<le> j \<and> j < read_ULONG m (ExportDirectory + 24)" by simp
      with "1.prems" show "\<not> StringEqualA m ProcedureName
          (RVA_TO_VA DllBase (read_ULONG m (NameRvas + 4 * ucast j)))"
        by blast
    qed
    from "1.IH" [OF refl refl True refl refl nomatch rest]
    show ?thesis
      using True nomatch
      by (subst KexRtlMiniGetProcedureAddress_loop.simps) (simp add: Let_def)
  qed
qed

text \<open>
  C3.  For a non-null image base, name and output slot, and an image that has an export
  directory: when the \<open>i\<close>-th name of the name table is the first one equal to the
  procedure name, the routine succeeds and stores the base plus the entry of the address
  table indexed by the ordinal paired with that name; when no name of the table is
  equal to it, the routine returns \<^verbatim>\<open>STATUS_ENTRYPOINT_NOT_FOUND\<close>.
\<close>

theorem KexRtlMiniGetProcedureAddress_resolves:
  fixes DllBase :: "'a::len word" and i :: ULONG
  assumes "DllBase \<noteq> 0" and "ProcedureAddress \<noteq> 0"
    and "dir m DllBase = ExportDirectory" and "ExportDirectory \<noteq> 0"
  shows "case KexRtlMiniGetProcedureAddress dir m DllBase (Some Name) ProcedureAddress of
           (Status, Address, acc) \<Rightarrow>
         (i < export_NumberOfNames m ExportDirectory \<and>
          StringEqualA m Name (export_name m DllBase ExportDirectory i) \<and>
          (\<forall>j < i. \<not> StringEqualA m Name (export_name m DllBase ExportDirectory j)) \<longrightarrow>
            Status = STATUS_SUCCESS \<and>
            Address = Some (DllBase + ucast (export_function m DllBase ExportDirectory
                                  (export_ordinal m DllBase ExportDirectory i)))) \<and>
         ((\<forall>j < export_NumberOfNames m ExportDirectory.
              \<not> StringEqualA m Name (export_name m DllBase ExportDirectory j)) \<longrightarrow>
            Status = STATUS_ENTRYPOINT_NOT_FOUND \<and> Address = Some 0)"
proof -
  let ?names = "RVA_TO_VA DllBase (read_ULONG m (ExportDirectory + 32))"
  let ?funs = "RVA_TO_VA DllBase (read_ULONG m (ExportDirectory + 28))"
  let ?ords = "RVA_TO_VA DllBase (read_ULONG m (ExportDirectory + 36))"
  let ?acc = "[Call_RtlImageDirectoryEntryToData DllBase, Load (ExportDirectory + 32) 4,
       Load (ExportDirectory + 28) 4, Load (ExportDirectory + 36) 4]"
  let ?loop = "KexRtlMiniGetProcedureAddress_loop m DllBase Name ExportDirectory
      ?names ?funs ?ords 0 ?acc"
  obtain Status Address acc where
    r: "KexRtlMiniGetProcedureAddress dir m DllBase (Some Name) ProcedureAddress =
          (Status, Address, acc)"
    by (metis prod_cases3)
  have unfold: "(Status, Address, acc) =
      (case ?loop of (Status, Address, acc) \<Rightarrow> (Status, Some Address, acc))"
    using assms r by (simp add: KexRtlMiniGetProcedureAddress_def Let_def)
  have found: "Status = STATUS_SUCCESS \<and>
            Address = Some (DllBase + ucast (export_function m DllBase ExportDirectory
                                  (export_ordinal m DllBase ExportDirectory i)))"
    if a: "i < export_NumberOfNames m ExportDirectory \<and>
          StringEqualA m Name (export_name m DllBase ExportDirectory i) \<and>
          (\<forall>j < i. \<not> StringEqualA m Name (export_name m DllBase ExportDirectory j))"
  proof -
    have "\<exists>acc'. ?loop =
      (STATUS_SUCCESS, RVA_TO_VA DllBase (export_function m DllBase ExportDirectory
                                  (export_ordinal m DllBase ExportDirectory i)), acc')"
      unfolding export_function_def export_ordinal_def
      by (rule KexRtlMiniGetProcedureAddress_loop_found)
         (use a in \<open>simp_all add: export_NumberOfNames_def export_name_def\<close>)
    then obtain acc' where "?loop =
      (STATUS_SUCCESS, RVA_TO_VA DllBase (export_function m DllBase ExportDirectory
                                  (export_ordinal m DllBase ExportDirectory i)), acc')"
      by blast
    with unfold show ?thesis by (simp add: RVA_TO_VA_def)
  qed
  have absent: "Status = STATUS_ENTRYPOINT_NOT_FOUND \<and> Address = Some 0"
    if a: "\<forall>j < export_NumberOfNames m ExportDirectory.
              \<not> StringEqualA m Name (export_name m DllBase ExportDirectory j)"
  proof -
    have "\<exists>acc'. ?loop = (STATUS_ENTRYPOINT_NOT_FOUND, 0, acc')"
      by (rule KexRtlMiniGetProcedureAddress_loop_not_found)
         (use a in \<open>simp_all add: export_NumberOfNames_def export_name_def\<close>)
    then obtain acc' where "?loop = (STATUS_ENTRYPOINT_NOT_FOUND, 0, acc')"
      by blast
    with unfold show ?thesis by simp
  qed
  from found absent show ?thesis unfolding r by simp
qed

text \<open>The fields of the image with two exports.\<close>

lemmas image_defs = demo_image_def demo_offsets_def demo_directory_def place_def le32_def
  le16_def cstr_def read_ULONG_def read_USHORT_def RVA_TO_VA_def export_NumberOfNames_def
  export_name_def export_ordinal_def export_function_def

lemma demo_fields:
  "export_NumberOfNames (demo_image (0x77000000 :: 32 word)) 0x77001000 = 2"
  "export_name (demo_image (0x77000000 :: 32 word)) 0x77000000 0x77001000 0 = 0x77001400"
  "export_name (demo_image (0x77000000 :: 32 word)) 0x77000000 0x77001000 1 = 0x77001410"
  "export_ordinal (demo_image (0x77000000 :: 32 word)) 0x77000000 0x77001000 1 = 0"
  "export_function (demo_image (0x77000000 :: 32 word)) 0x77000000 0x77001000 0 = 0x2000"
  by (simp_all add: image_defs)

lemma demo_names:
  "\<not> StringEqualA (demo_image (0x77000000 :: 32 word)) ''Foo'' 0x77001400"
  "StringEqualA (demo_image (0x77000000 :: 32 word)) ''Foo'' 0x77001410"
  "\<not> StringEqualA (demo_image (0x77000000 :: 32 word)) ''Baz'' 0x77001400"
  "\<not> StringEqualA (demo_image (0x77000000 :: 32 word)) ''Baz'' 0x77001410"
  by (simp_all add: image_defs)

lemma word_less_2_cases:
  fixes j :: "'a::len word"
  assumes "j < 2"
  shows "j = 0 \<or> j = 1"
proof -
  have "unat j < unat (2 :: 'a word)" using assms by (simp add: word_less_nat_alt)
  also have "unat (2 :: 'a word) \<le> 2" by (simp add: unat_of_nat)
  finally have "unat j = 0 \<or> unat j = unat (1 :: 'a word)" by auto
  then show ?thesis by (simp only: unat_eq_zero word_unat_eq_iff [symmetric])
qed

text \<open>
  C8.  A null image base, procedure name or output slot gives
  \<^verbatim>\<open>STATUS_INVALID_PARAMETER\<close>; the routine has then read nothing (no call to locate
  the export directory, no load from the image) and stored nothing through the slot.
\<close>

theorem KexRtlMiniGetProcedureAddress_null_argument:
  assumes "DllBase = 0 \<or> ProcedureName = None \<or> ProcedureAddress = 0"
  shows "KexRtlMiniGetProcedureAddress dir m DllBase ProcedureName ProcedureAddress =
           (STATUS_INVALID_PARAMETER, None, [])"
  using assms by (auto simp: KexRtlMiniGetProcedureAddress_def split: option.splits)

theorem KexRtlMiniGetProcedureAddress_null_argument_witness:
  "KexRtlMiniGetProcedureAddress demo_directory (demo_image (0x77000000 :: 32 word)) 0
      (Some ''Foo'') 0x12FF00 = (STATUS_INVALID_PARAMETER, None, []) \<and>
   KexRtlMiniGetProcedureAddress demo_directory (demo_image (0x77000000 :: 32 word)) 0x77000000
      None 0x12FF00 = (STATUS_INVALID_PARAMETER, None, []) \<and>
   KexRtlMiniGetProcedureAddress demo_directory (demo_image (0x77000000 :: 32 word)) 0x77000000
      (Some ''Foo'') 0 = (STATUS_INVALID_PARAMETER, None, [])"
  using
    KexRtlMiniGetProcedureAddress_null_argument
      [where DllBase = "0 :: 32 word" and ProcedureName = "Some ''Foo''"
         and ProcedureAddress = "0x12FF00" and dir = demo_directory
         and m = "demo_image (0x77000000 :: 32 word)"]
    KexRtlMiniGetProcedureAddress_null_argument
      [where DllBase = "0x77000000 :: 32 word" and ProcedureName = None
         and ProcedureAddress = "0x12FF00" and dir = demo_directory
         and m = "demo_image (0x77000000 :: 32 word)"]
    KexRtlMiniGetProcedureAddress_null_argument
      [where DllBase = "0x77000000 :: 32 word" and ProcedureName = "Some ''Foo''"
         and ProcedureAddress = 0 and dir = demo_directory
         and m = "demo_image (0x77000000 :: 32 word)"]
  by simp

text \<open>
  The image with two exports, based at \<open>0x77000000\<close>: \<open>Foo\<close> is the second name, its
  ordinal is 0 and the address table maps ordinal 0 to offset \<open>0x2000\<close>, so resolving
  \<open>Foo\<close> gives the base plus \<open>0x2000\<close>; \<open>Baz\<close> is not exported.
\<close>

theorem KexRtlMiniGetProcedureAddress_resolves_witness:
  "fst (KexRtlMiniGetProcedureAddress demo_directory (demo_image (0x77000000 :: 32 word))
      0x77000000 (Some ''Foo'') 0x12FF00) = STATUS_SUCCESS \<and>
   fst (snd (KexRtlMiniGetProcedureAddress demo_directory (demo_image (0x77000000 :: 32 word))
      0x77000000 (Some ''Foo'') 0x12FF00)) = Some (0x77000000 + 0x2000) \<and>
   fst (KexRtlMiniGetProcedureAddress demo_directory (demo_image (0x77000000 :: 32 word))
      0x77000000 (Some ''Baz'') 0x12FF00) = STATUS_ENTRYPOINT_NOT_FOUND"
proof -
  let ?m = "demo_image (0x77000000 :: 32 word)"
  have dir: "demo_directory ?m 0x77000000 = 0x77001000" by (simp add: demo_directory_def)
  have foo: "1 < export_NumberOfNames ?m 0x77001000 \<and>
      StringEqualA ?m ''Foo'' (export_name ?m 0x77000000 0x77001000 1) \<and>
      (\<forall>j < 1. \<not> StringEqualA ?m ''Foo'' (export_name ?m 0x77000000 0x77001000 j))"
  proof (intro conjI allI impI)
    show "1 < export_NumberOfNames ?m 0x77001000" unfolding demo_fields by simp
    show "StringEqualA ?m ''Foo'' (export_name ?m 0x77000000 0x77001000 1)"
      unfolding demo_fields by (rule demo_names(2))
    fix j :: ULONG
    assume "j < 1"
    then have "j = 0" by simp
    then show "\<not> StringEqualA ?m ''Foo'' (export_name ?m 0x77000000 0x77001000 j)"
      using demo_names(1) by (simp only: demo_fields not_False_eq_True)
  qed
  have baz: "\<forall>j < export_NumberOfNames ?m 0x77001000.
      \<not> StringEqualA ?m ''Baz'' (export_name ?m 0x77000000 0x77001000 j)"
  proof (intro allI impI)
    fix j :: ULONG
    assume "j < export_NumberOfNames ?m 0x77001000"
    then have "j = 0 \<or> j = 1" unfolding demo_fields by (rule word_less_2_cases)
    then show "\<not> StringEqualA ?m ''Baz'' (export_name ?m 0x77000000 0x77001000 j)"
      using demo_names(3,4) by (auto simp only: demo_fields)
  qed
  from KexRtlMiniGetProcedureAddress_resolves
         [where DllBase = "0x77000000 :: 32 word" and ProcedureAddress = "0x12FF00"
            and dir = demo_directory and m = ?m and ExportDirectory = "0x77001000"
            and Name = "''Foo''" and i = 1] dir foo
  have 1: "fst (KexRtlMiniGetProcedureAddress demo_directory ?m 0x77000000 (Some ''Foo'')
      0x12FF00) = STATUS_SUCCESS \<and>
      fst (snd (KexRtlMiniGetProcedureAddress demo_directory ?m 0x77000000 (Some ''Foo'')
      0x12FF00)) = Some (0x77000000 + 0x2000)"
    by (simp add: demo_fields split: prod.splits)
  from KexRtlMiniGetProcedureAddress_resolves
         [where DllBase = "0x77000000 :: 32 word" and ProcedureAddress = "0x12FF00"
            and dir = demo_directory and m = ?m and ExportDirectory = "0x77001000"
            and Name = "''Baz''" and i = 0] dir baz
  have 2: "fst (KexRtlMiniGetProcedureAddress demo_directory ?m 0x77000000 (Some ''Baz'')
      0x12FF00) = STATUS_ENTRYPOINT_NOT_FOUND"
    by (simp add: split: prod.splits)
  from 1 2 show ?thesis by simp
qed

section \<open>Locating the native system image\<close>

subsection \<open>Arithmetic of the probe addresses\<close>

lemma take_bit_32:
  assumes "32 \<le> LENGTH('a::len)" and "n < 2 ^ 32"
  shows "take_bit LENGTH('a) (n::nat) = n"
proof -
  have "(2::nat) ^ 32 \<le> 2 ^ LENGTH('a)" using assms(1) by (rule power_increasing) simp
  with assms(2) have "n < 2 ^ LENGTH('a)" by linarith
  then show ?thesis by (simp add: take_bit_nat_eq_self)
qed

lemma unat_scan_consts:
  assumes "32 \<le> LENGTH('a::len)"
  shows "unat (0x70000000 :: 'a word) = 0x70000000"
    and "unat (0x10000 :: 'a word) = 0x10000"
    and "unat (0x7FFD0000 :: 'a word) = 0x7FFD0000"
  by (simp_all add: take_bit_32 [OF assms])

lemma unat_step:
  fixes b :: "'a::len word"
  assumes "32 \<le> LENGTH('a)" and "0x10000 \<le> b"
  shows "unat (b - 0x10000) = unat b - 0x10000"
  using assms(2) unat_sub [of "0x10000" b] by (simp add: take_bit_32 [OF assms(1)])

lemma above_floor:
  fixes N :: "'a::len word"
  assumes "32 \<le> LENGTH('a)"
  shows "0x70000000 < N \<longleftrightarrow> 0x70000000 < unat N"
  by (simp add: word_less_nat_alt take_bit_32 [OF assms])

lemma unat_probe:
  assumes "0x70000000 + k * 0x10000 < (2::nat) ^ LENGTH('a::len)"
  shows "unat (0x70000000 + of_nat k * 0x10000 :: 'a word) = 0x70000000 + k * 0x10000"
proof -
  have "(0x70000000 + of_nat k * 0x10000 :: 'a word) = of_nat (0x70000000 + k * 0x10000)"
    by simp
  then show ?thesis using assms by (simp only: unat_of_nat mod_less)
qed

lemma count_step:
  fixes n n' :: nat
  assumes "n' + 0x10000 \<le> n" and "0x70000000 < n"
  shows "Suc ((n' - 0x70000000 + 0xFFFF) div 0x10000) \<le> (n - 0x70000000 + 0xFFFF) div 0x10000"
proof -
  define y where "y = n' - 0x70000000"
  define x where "x = n - 0x70000000"
  have "y + 0x10000 \<le> x \<or> (y = 0 \<and> 1 \<le> x)"
    unfolding x_def y_def using assms by linarith
  then consider (far) "y + 0x10000 \<le> x" | (near) "y = 0" "1 \<le> x"
    by blast
  then have "Suc ((y + 0xFFFF) div 0x10000) \<le> (x + 0xFFFF) div 0x10000"
  proof cases
    case far
    then have "y + 0xFFFF + 0x10000 \<le> x + 0xFFFF" by simp
    then have "(y + 0xFFFF + 0x10000) div 0x10000 \<le> (x + 0xFFFF) div 0x10000"
      by (rule div_le_mono)
    moreover have "(y + 0xFFFF + 0x10000) div 0x10000 = Suc ((y + 0xFFFF) div 0x10000)"
      by simp
    ultimately show ?thesis by simp
  next
    case near
    then have "0x10000 \<le> x + 0xFFFF" by simp
    then have "(0x10000::nat) div 0x10000 \<le> (x + 0xFFFF) div 0x10000"
      by (rule div_le_mono)
    with near(1) show ?thesis by simp
  qed
  then show ?thesis by (simp add: x_def y_def)
qed

lemma wrap_below_zero: "(- 65536 :: 32 word) = 4294901760"
  by (simp add: word_uint_eq_iff uint_word_ariths)

subsection \<open>The probes of a run\<close>

lemma probes_append: "probes (tr @ tr') = probes tr @ probes tr'"
  by (simp add: probes_def List.map_filter_def)

lemma probes_simps:
  "probes [] = []"
  "probes ((Call_QueryMappedFilename h a n, st) # tr) = a # probes tr"
  "probes ((Call_QueryBasic h a, st) # tr) = probes tr"
  "probes ((Call_LdrGetDllHandleByName nm, st) # tr) = probes tr"
  by (simp_all add: probes_def)

lemma probes_of_queries:
  "map fst ext = map (\<lambda>j. Call_QueryMappedFilename h (f j) n) js \<Longrightarrow> probes ext = map f js"
proof (induction ext arbitrary: js)
  case Nil
  then show ?case by (simp add: probes_simps)
next
  case (Cons e ext)
  then obtain j js' where js: "js = j # js'" by (cases js) auto
  with Cons.prems have "fst e = Call_QueryMappedFilename h (f j) n"
    and "map fst ext = map (\<lambda>j. Call_QueryMappedFilename h (f j) n) js'" by simp_all
  with Cons.IH [of js'] js show ?case by (cases e) (simp add: probes_simps)
qed

lemma take_2_probes: "1 \<le> k \<Longrightarrow> take 2 (a # map f (rev [1..<Suc k])) = [a, f k]"
  by (simp add: numeral_2_eq_2)

subsection \<open>The loop\<close>


text \<open>
  When every file-name query fails (in the states that satisfy an invariant \<open>I\<close>), a
  loop entered \<open>k\<close> steps above the lower bound makes \<open>k\<close> probes, one step apart,
  and returns null.
\<close>

lemma scan_all_fail:
  fixes os :: "('s, 'a::len word) nt_os"
  assumes len: "32 \<le> LENGTH('a)"
    and fails: "\<And>a s. I s \<Longrightarrow>
      \<not> NT_SUCCESS (fst (fst (NtQueryVirtualMemory_MappedFilename os NtCurrentProcess a 512 s)))
      \<and> I (snd (NtQueryVirtualMemory_MappedFilename os NtCurrentProcess a 512 s))"
    and "I s" and "0x70000000 + k * 0x10000 < (2::nat) ^ LENGTH('a)"
  shows "\<exists>s' ext. KexRtlGetNativeSystemDllBase_scan os (0x70000000 + of_nat k * 0x10000) s tr
            = Some (0, s', tr @ ext) \<and> I s' \<and>
          map fst ext = map (\<lambda>j. Call_QueryMappedFilename NtCurrentProcess
                                   (0x70000000 + of_nat j * 0x10000) 512) (rev [1..<Suc k])"
  using assms(3,4)
proof (induction k arbitrary: s tr)
  case 0
  then show ?case by (subst KexRtlGetNativeSystemDllBase_scan.simps) simp
next
  case (Suc k)
  let ?N = "0x70000000 + of_nat (Suc k) * 0x10000 :: 'a word"
  obtain stN nm s1 where qn:
    "NtQueryVirtualMemory_MappedFilename os NtCurrentProcess ?N 512 s = ((stN, nm), s1)"
    by (metis surj_pair)
  from fails [OF Suc.prems(1), of ?N] qn have bad: "\<not> NT_SUCCESS stN" and I1: "I s1" by simp_all
  have above: "0x70000000 < ?N"
    unfolding above_floor [OF len] unat_probe [OF Suc.prems(2)] by simp
  have down: "?N - 0x10000 = 0x70000000 + of_nat k * 0x10000" by (simp add: algebra_simps)
  have fit: "0x70000000 + k * 0x10000 < (2::nat) ^ LENGTH('a)" using Suc.prems(2) by simp
  let ?ev = "(Call_QueryMappedFilename NtCurrentProcess ?N 512, stN)"
  from Suc.IH [OF I1 fit, of "tr @ [?ev]"] obtain s' ext where
    run: "KexRtlGetNativeSystemDllBase_scan os (0x70000000 + of_nat k * 0x10000) s1 (tr @ [?ev])
            = Some (0, s', (tr @ [?ev]) @ ext)" and I': "I s'"
    and evs: "map fst ext = map (\<lambda>j. Call_QueryMappedFilename NtCurrentProcess
                                   (0x70000000 + of_nat j * 0x10000) 512) (rev [1..<Suc k])"
    by blast
  have "KexRtlGetNativeSystemDllBase_scan os ?N s tr = Some (0, s', tr @ (?ev # ext))"
    using above qn bad run down
    by (subst KexRtlGetNativeSystemDllBase_scan.simps) (simp del: of_nat_Suc)
  moreover have "map fst (?ev # ext) = map (\<lambda>j. Call_QueryMappedFilename NtCurrentProcess
                                   (0x70000000 + of_nat j * 0x10000) 512) (rev [1..<Suc (Suc k)])"
    using evs by simp
  ultimately show ?case using I' by blast
qed

lemma scan_all_fail_probes:
  fixes os :: "('s, 'a::len word) nt_os"
  assumes len: "32 \<le> LENGTH('a)"
    and fails: "\<And>a s. I s \<Longrightarrow>
      \<not> NT_SUCCESS (fst (fst (NtQueryVirtualMemory_MappedFilename os NtCurrentProcess a 512 s)))
      \<and> I (snd (NtQueryVirtualMemory_MappedFilename os NtCurrentProcess a 512 s))"
    and "I s" and fit: "0x70000000 + k * 0x10000 < (2::nat) ^ LENGTH('a)"
  shows "\<exists>s' ext. KexRtlGetNativeSystemDllBase_scan os (0x70000000 + of_nat k * 0x10000) s tr
            = Some (0, s', tr @ ext) \<and> I s' \<and>
          probes ext = map (\<lambda>j. 0x70000000 + of_nat j * 0x10000) (rev [1..<Suc k]) \<and>
          length ext = k"
proof -
  from scan_all_fail [where I = I and os = os and k = k and s = s and tr = tr, OF len fails assms(3) fit]
  obtain s' ext where run: "KexRtlGetNativeSystemDllBase_scan os
      (0x70000000 + of_nat k * 0x10000) s tr = Some (0, s', tr @ ext)" and "I s'"
    and evs: "map fst ext = map (\<lambda>j. Call_QueryMappedFilename NtCurrentProcess
                (0x70000000 + of_nat j * 0x10000) 512) (rev [1..<Suc k])"
    by blast
  have "length (map fst ext) = length (rev [1..<Suc k])" unfolding evs by (simp only: length_map)
  then have "length ext = k" by (simp only: length_map length_rev length_upt diff_Suc_1)
  with run \<open>I s'\<close> probes_of_queries [OF evs] show ?thesis by blast
qed

lemma top_is_4093: "(0x7FFD0000 :: 'a::len word) = 0x70000000 + of_nat 4093 * 0x10000"
  by simp

lemma scan_no_mapped_file:
  fixes os :: "('s, 'a::len word) nt_os"
  assumes len: "32 \<le> LENGTH('a)" and none: "no_mapped_file os"
  shows "\<exists>s' ext. KexRtlGetNativeSystemDllBase_scan os 0x7FFD0000 s tr = Some (0, s', tr @ ext) \<and>
           probes ext = map (\<lambda>j. 0x70000000 + of_nat j * 0x10000) (rev [1..<Suc 4093]) \<and>
           length ext = 4093"
proof -
  have fit: "0x70000000 + 4093 * 0x10000 < (2::nat) ^ LENGTH('a)"
  proof -
    have "(2::nat) ^ 32 \<le> 2 ^ LENGTH('a)" using len by (rule power_increasing) simp
    then show ?thesis by simp
  qed
  from scan_all_fail [where I = "\<lambda>s. True" and os = os and k = 4093 and s = s and tr = tr,
      OF len _ _ fit] none
  obtain s' ext where run: "KexRtlGetNativeSystemDllBase_scan os
      (0x70000000 + of_nat 4093 * 0x10000) s tr = Some (0, s', tr @ ext)"
    and evs: "map fst ext = map (\<lambda>j. Call_QueryMappedFilename NtCurrentProcess
                (0x70000000 + of_nat j * 0x10000) 512) (rev [1..<Suc 4093])"
    unfolding no_mapped_file_def by blast
  have "length (map fst ext) = length (rev [1..<Suc 4093])" unfolding evs by (simp only: length_map)
  then have "length ext = 4093" by (simp only: length_map length_rev length_upt diff_Suc_1)
  with run probes_of_queries [OF evs] show ?thesis unfolding top_is_4093 [symmetric] by blast
qed

text \<open>
  Termination on a system that reports allocation bases below the address queried, by
  induction on the probe address: every continuation of the loop lowers it by at least
  \<open>0x10000\<close>.
\<close>

lemma scan_terminates:
  fixes os :: "('s, 'a::len word) nt_os"
  assumes len: "32 \<le> LENGTH('a)"
    and below: "allocation_below os"
  shows "\<exists>r s' ext. KexRtlGetNativeSystemDllBase_scan os N s tr = Some (r, s', tr @ ext) \<and>
           sorted_wrt (>) (probes ext) \<and>
           (\<forall>p \<in> set (probes ext). 0x70000000 < p \<and> p \<le> N) \<and>
           length (probes ext) \<le> (unat N - 0x70000000 + 0xFFFF) div 0x10000"
proof (induction "unat N" arbitrary: N s tr rule: less_induct)
  case less
  have contract: "0x10000 \<le> AllocationBase bi \<and> AllocationBase bi \<le> a"
    if "NtQueryVirtualMemory_MappedFilename os NtCurrentProcess a 512 s = ((stN, nm), s1)"
      and "NT_SUCCESS stN"
      and "NtQueryVirtualMemory_Basic os NtCurrentProcess a s1 = ((stB, bi), s2)"
      and "NT_SUCCESS stB" for a s stN nm s1 stB bi s2
    using below that unfolding allocation_below_def by (force split: prod.splits)
  show ?case
  proof (cases "0x70000000 < N")
    case False
    then have "KexRtlGetNativeSystemDllBase_scan os N s tr = Some (0, s, tr @ [])"
      by (subst KexRtlGetNativeSystemDllBase_scan.simps) simp
    then show ?thesis by (intro exI [of _ 0] exI [of _ s] exI [of _ "[]"]) (simp add: probes_simps)
  next
    case above: True
    then have aboveN: "0x70000000 < unat N" by (simp add: above_floor [OF len])
    have geN: "0x10000 \<le> N"
      using aboveN by (simp add: word_le_nat_alt take_bit_32 [OF len])
    have downN: "unat (N - 0x10000) = unat N - 0x10000" by (rule unat_step [OF len geN])
    have step: "\<exists>r s' ext. KexRtlGetNativeSystemDllBase_scan os N' s1 (tr @ evs)
                   = Some (r, s', tr @ ext) \<and>
           sorted_wrt (>) (probes ext) \<and>
           (\<forall>p \<in> set (probes ext). 0x70000000 < p \<and> p \<le> N) \<and>
           length (probes ext) \<le> (unat N - 0x70000000 + 0xFFFF) div 0x10000"
      if lower: "unat N' + 0x10000 \<le> unat N" and pr: "probes evs = [N]" for N' s1 evs
    proof -
      have "unat N' < unat N" using lower by simp
      from less [OF this, of s1 "tr @ evs"] obtain r s' ext where
        run: "KexRtlGetNativeSystemDllBase_scan os N' s1 (tr @ evs) = Some (r, s', (tr @ evs) @ ext)"
        and srt: "sorted_wrt (>) (probes ext)"
        and rng: "\<forall>p \<in> set (probes ext). 0x70000000 < p \<and> p \<le> N'"
        and cnt: "length (probes ext) \<le> (unat N' - 0x70000000 + 0xFFFF) div 0x10000"
        by blast
      have lt: "N' < N" using lower by (simp add: word_less_nat_alt)
      have "sorted_wrt (>) (probes (evs @ ext))"
        using srt rng lt pr by (auto simp: probes_append)
      moreover have "\<forall>p \<in> set (probes (evs @ ext)). 0x70000000 < p \<and> p \<le> N"
        using rng lt pr above by (auto simp: probes_append)
      moreover have "length (probes (evs @ ext)) \<le> (unat N - 0x70000000 + 0xFFFF) div 0x10000"
      proof -
        have "Suc ((unat N' - 0x70000000 + 0xFFFF) div 0x10000)
                \<le> (unat N - 0x70000000 + 0xFFFF) div 0x10000"
          using lower aboveN by (rule count_step)
        with cnt pr show ?thesis by (simp add: probes_append)
      qed
      ultimately show ?thesis using run by (intro exI [of _ r] exI [of _ s'] exI [of _ "evs @ ext"]) simp
    qed
    obtain stN nm sB where qn:
      "NtQueryVirtualMemory_MappedFilename os NtCurrentProcess N 512 s = ((stN, nm), sB)"
      by (metis surj_pair)
    let ?evN = "(Call_QueryMappedFilename NtCurrentProcess N 512, stN)"
    obtain stB bi s2 where qb:
      "NtQueryVirtualMemory_Basic os NtCurrentProcess N sB = ((stB, bi), s2)"
      by (metis surj_pair)
    let ?evB = "(Call_QueryBasic NtCurrentProcess N, stB)"
    show ?thesis
    proof (cases "NT_SUCCESS stN")
      case False
      from step [of "N - 0x10000" "[?evN]" sB] downN aboveN
      obtain r s' ext where "KexRtlGetNativeSystemDllBase_scan os (N - 0x10000) sB (tr @ [?evN])
                   = Some (r, s', tr @ ext)" and
           "sorted_wrt (>) (probes ext) \<and>
           (\<forall>p \<in> set (probes ext). 0x70000000 < p \<and> p \<le> N) \<and>
           length (probes ext) \<le> (unat N - 0x70000000 + 0xFFFF) div 0x10000"
        by (auto simp: probes_simps)
      moreover have "KexRtlGetNativeSystemDllBase_scan os N s tr =
          KexRtlGetNativeSystemDllBase_scan os (N - 0x10000) sB (tr @ [?evN])"
        using above qn False by (subst KexRtlGetNativeSystemDllBase_scan.simps) simp
      ultimately show ?thesis by auto
    next
      case okN: True
      show ?thesis
      proof (cases "NT_SUCCESS stB")
        case False
        from step [of "N - 0x10000" "[?evN, ?evB]" s2] downN aboveN
        obtain r s' ext where "KexRtlGetNativeSystemDllBase_scan os (N - 0x10000) s2
             (tr @ [?evN, ?evB]) = Some (r, s', tr @ ext)" and
           "sorted_wrt (>) (probes ext) \<and>
           (\<forall>p \<in> set (probes ext). 0x70000000 < p \<and> p \<le> N) \<and>
           length (probes ext) \<le> (unat N - 0x70000000 + 0xFFFF) div 0x10000"
          by (auto simp: probes_simps)
        moreover have "KexRtlGetNativeSystemDllBase_scan os N s tr =
            KexRtlGetNativeSystemDllBase_scan os (N - 0x10000) s2 (tr @ [?evN, ?evB])"
          using above qn okN qb False
          by (subst KexRtlGetNativeSystemDllBase_scan.simps) simp
        ultimately show ?thesis by auto
      next
        case okB: True
        from contract [OF qn okN qb okB] have b1: "0x10000 \<le> AllocationBase bi"
          and b2: "AllocationBase bi \<le> N" by simp_all
        have downB: "unat (AllocationBase bi - 0x10000) + 0x10000 \<le> unat N"
          using unat_step [OF len b1] b1 b2
          by (simp add: word_le_nat_alt take_bit_32 [OF len])
        show ?thesis
        proof (cases "Type bi = MEM_IMAGE \<and>
                      KexRtlUnicodeStringEndsWith os nm NtdllPathFragment True")
          case True
          then have "KexRtlGetNativeSystemDllBase_scan os N s tr =
              Some (AllocationBase bi, s2, tr @ [?evN, ?evB])"
            using above qn okN qb okB
            by (subst KexRtlGetNativeSystemDllBase_scan.simps) simp
          moreover have "1 \<le> (unat N - 0x70000000 + 0xFFFF) div 0x10000"
            using aboveN by arith
          ultimately show ?thesis
            using above
            by (intro exI [of _ "AllocationBase bi"] exI [of _ s2] exI [of _ "[?evN, ?evB]"])
               (simp add: probes_simps)
        next
          case False
          from step [of "AllocationBase bi - 0x10000" "[?evN, ?evB]" s2] downB
          obtain r s' ext where "KexRtlGetNativeSystemDllBase_scan os
               (AllocationBase bi - 0x10000) s2 (tr @ [?evN, ?evB]) = Some (r, s', tr @ ext)" and
           "sorted_wrt (>) (probes ext) \<and>
           (\<forall>p \<in> set (probes ext). 0x70000000 < p \<and> p \<le> N) \<and>
           length (probes ext) \<le> (unat N - 0x70000000 + 0xFFFF) div 0x10000"
            by (auto simp: probes_simps)
          moreover have "KexRtlGetNativeSystemDllBase_scan os N s tr =
              KexRtlGetNativeSystemDllBase_scan os (AllocationBase bi - 0x10000) s2
                (tr @ [?evN, ?evB])"
            using above qn okN qb okB False
            by (subst KexRtlGetNativeSystemDllBase_scan.simps) (auto simp: Let_def)
          ultimately show ?thesis by auto
        qed
      qed
    qed
  qed
qed

lemma scan_allocation_below:
  fixes os :: "('s, 'a::len word) nt_os"
  assumes len: "32 \<le> LENGTH('a)" and below: "allocation_below os"
  shows "\<exists>r s' ext. KexRtlGetNativeSystemDllBase_scan os 0x7FFD0000 s tr = Some (r, s', tr @ ext) \<and>
           sorted_wrt (>) (probes ext) \<and>
           (\<forall>p \<in> set (probes ext). 0x70000000 < p \<and> p \<le> 0x7FFD0000) \<and>
           length (probes ext) \<le> 4093"
proof -
  have bound: "(unat (0x7FFD0000 :: 'a word) - 0x70000000 + 0xFFFF) div 0x10000 = (4093::nat)"
    unfolding unat_scan_consts [OF len] by simp
  from scan_terminates [where os = os and N = "0x7FFD0000" and s = s and tr = tr, OF len below]
  obtain r s' ext where
    "KexRtlGetNativeSystemDllBase_scan os 0x7FFD0000 s tr = Some (r, s', tr @ ext)"
    "sorted_wrt (>) (probes ext)"
    "\<forall>p \<in> set (probes ext). 0x70000000 < p \<and> p \<le> 0x7FFD0000"
    "length (probes ext) \<le> (unat (0x7FFD0000 :: 'a word) - 0x70000000 + 0xFFFF) div 0x10000"
    by blast
  then show ?thesis unfolding bound by blast
qed

subsection \<open>The routine\<close>

lemma locator_fast:
  assumes "cb = ob" and "LdrGetDllHandleByName os NtdllBaseName s = ((st, base), s1)"
    and "NT_SUCCESS st"
  shows "KexRtlGetNativeSystemDllBase os cb ob s =
           Some (base, s1, [(Call_LdrGetDllHandleByName NtdllBaseName, st)])"
  using assms by (simp add: KexRtlGetNativeSystemDllBase_def)

lemma locator_scan:
  assumes "cb \<noteq> ob \<or> \<not> NT_SUCCESS (fst (fst (LdrGetDllHandleByName os NtdllBaseName s)))"
  shows "\<exists>s0 tr0. KexRtlGetNativeSystemDllBase os cb ob s =
            KexRtlGetNativeSystemDllBase_scan os 0x7FFD0000 s0 tr0 \<and> probes tr0 = []"
proof (cases "cb = ob")
  case False
  then have "KexRtlGetNativeSystemDllBase os cb ob s =
      KexRtlGetNativeSystemDllBase_scan os 0x7FFD0000 s []"
    by (simp add: KexRtlGetNativeSystemDllBase_def)
  then show ?thesis using probes_simps(1) by blast
next
  case True
  obtain st base s1 where l: "LdrGetDllHandleByName os NtdllBaseName s = ((st, base), s1)"
    by (metis surj_pair)
  with True assms have "KexRtlGetNativeSystemDllBase os cb ob s =
      KexRtlGetNativeSystemDllBase_scan os 0x7FFD0000 s1
        [(Call_LdrGetDllHandleByName NtdllBaseName, st)]"
    by (simp add: KexRtlGetNativeSystemDllBase_def)
  moreover have "probes [(Call_LdrGetDllHandleByName NtdllBaseName, st)] = []"
    by (simp add: probes_simps)
  ultimately show ?thesis by blast
qed

lemma locator_fast_or_scan:
  "(\<exists>st base s1. cb = ob \<and> LdrGetDllHandleByName os NtdllBaseName s = ((st, base), s1) \<and>
       NT_SUCCESS st \<and>
       KexRtlGetNativeSystemDllBase os cb ob s =
         Some (base, s1, [(Call_LdrGetDllHandleByName NtdllBaseName, st)])) \<or>
   (\<exists>s0 tr0. KexRtlGetNativeSystemDllBase os cb ob s =
       KexRtlGetNativeSystemDllBase_scan os 0x7FFD0000 s0 tr0 \<and> probes tr0 = [])"
proof (cases "cb \<noteq> ob \<or> \<not> NT_SUCCESS (fst (fst (LdrGetDllHandleByName os NtdllBaseName s)))")
  case True
  from locator_scan [OF this] show ?thesis by blast
next
  case False
  obtain st base s1 where l: "LdrGetDllHandleByName os NtdllBaseName s = ((st, base), s1)"
    by (metis surj_pair)
  with False have "cb = ob" and "NT_SUCCESS st" by simp_all
  from locator_fast [OF this(1) l this(2)] l \<open>cb = ob\<close> \<open>NT_SUCCESS st\<close> show ?thesis by blast
qed

subsection \<open>The address spaces with one mapped file\<close>

lemma region_fields:
  "LdrGetDllHandleByName (region_os base extent ty name ldr) n s = (ldr, s)"
  "NtQueryVirtualMemory_MappedFilename (region_os base extent ty name ldr) h a l s =
     (if base \<le> a \<and> a - base < extent then ((STATUS_SUCCESS, name), s)
      else ((STATUS_INVALID_ADDRESS, []), s))"
  "NtQueryVirtualMemory_Basic (region_os base extent ty name ldr) h a s =
     (if base \<le> a \<and> a - base < extent
      then ((STATUS_SUCCESS, \<lparr>AllocationBase = base, Type = ty\<rparr>), s)
      else ((STATUS_SUCCESS, \<lparr>AllocationBase = 0, Type = 0\<rparr>), s))"
  "RtlEqualUnicodeString (region_os base extent ty name ldr) = equal_upcase"
  by (simp_all add: region_os_def os_none_def)



lemma no_mapped_file_os_none: "no_mapped_file os_none"
  by (simp add: no_mapped_file_def os_none_def NT_SUCCESS_simps)

lemma kernel32_below: "allocation_below (kernel32_os :: (unit, 32 word) nt_os)"
  by (simp add: allocation_below_def kernel32_os_def region_fields NT_SUCCESS_simps)


lemma racing_fields:
  "NtQueryVirtualMemory_MappedFilename (racing_os :: (bool, 'a::len word) nt_os) h a l mapped =
     (if mapped \<and> 0x7FFC0000 \<le> a \<and> a - 0x7FFC0000 < 0x20000
      then ((STATUS_SUCCESS, device_path ''Windows'' ''kernel32.dll''), False)
      else ((STATUS_INVALID_ADDRESS, []), mapped))"
  "NtQueryVirtualMemory_Basic (racing_os :: (bool, 'a::len word) nt_os) h a mapped =
     (if mapped \<and> 0x7FFC0000 \<le> a \<and> a - 0x7FFC0000 < 0x20000
      then ((STATUS_SUCCESS, \<lparr>AllocationBase = 0x7FFC0000, Type = MEM_IMAGE\<rparr>), mapped)
      else ((STATUS_SUCCESS, \<lparr>AllocationBase = 0, Type = 0\<rparr>), mapped))"
  by (simp_all add: racing_os_def unmap_os_def os_none_def)

lemma racing_first:
  "KexRtlGetNativeSystemDllBase (racing_os :: (bool, 32 word) nt_os) 32 64 True =
   KexRtlGetNativeSystemDllBase_scan racing_os (0x70000000 + of_nat 36863 * 0x10000) False
     [(Call_QueryMappedFilename NtCurrentProcess 0x7FFD0000 512, STATUS_SUCCESS),
      (Call_QueryBasic NtCurrentProcess 0x7FFD0000, STATUS_SUCCESS)]"
proof -
  have "KexRtlGetNativeSystemDllBase (racing_os :: (bool, 32 word) nt_os) 32 64 True =
      KexRtlGetNativeSystemDllBase_scan racing_os 0x7FFD0000 True []"
    by (simp add: KexRtlGetNativeSystemDllBase_def)
  also have "\<dots> = KexRtlGetNativeSystemDllBase_scan racing_os
     (0x70000000 + of_nat 36863 * 0x10000) False
     [(Call_QueryMappedFilename NtCurrentProcess 0x7FFD0000 512, STATUS_SUCCESS),
      (Call_QueryBasic NtCurrentProcess 0x7FFD0000, STATUS_SUCCESS)]"
    by (rule trans [OF KexRtlGetNativeSystemDllBase_scan.simps])
       (simp add: racing_fields NT_SUCCESS_simps MEM_IMAGE_def wrap_below_zero)
  finally show ?thesis .
qed












subsection \<open>The claims on the search\<close>




text \<open>
  C5, as amended.  On a system that reports allocation bases between \<open>0x10000\<close> and
  the address queried, the routine returns, the addresses it probes are strictly
  descending, all lie above \<open>0x70000000\<close> and at most at \<open>0x7FFD0000\<close>, and there are
  at most 4093 of them.  When every probe fails, whatever the system reports otherwise,
  the search returns null after the 4093 probes from \<open>0x7FFD0000\<close> down to
  \<open>0x70010000\<close>, one step of \<open>0x10000\<close> apart.
\<close>

theorem KexRtlGetNativeSystemDllBase_probes_descend:
  fixes os :: "('s, 'a::len word) nt_os"
  assumes len: "32 \<le> LENGTH('a)"
  shows "(allocation_below os \<longrightarrow>
           (\<exists>base s' tr. KexRtlGetNativeSystemDllBase os cb ob s = Some (base, s', tr) \<and>
              sorted_wrt (>) (probes tr) \<and>
              (\<forall>p \<in> set (probes tr). 0x70000000 < p \<and> p \<le> 0x7FFD0000) \<and>
              length (probes tr) \<le> 4093)) \<and>
         (no_mapped_file os \<and>
          (cb \<noteq> ob \<or> \<not> NT_SUCCESS (fst (fst (LdrGetDllHandleByName os NtdllBaseName s)))) \<longrightarrow>
           (\<exists>s' tr. KexRtlGetNativeSystemDllBase os cb ob s = Some (0, s', tr) \<and>
              probes tr = map (\<lambda>j. 0x70000000 + of_nat j * 0x10000) (rev [1..<Suc 4093])))"
proof (intro conjI impI)
  assume below: "allocation_below os"
  from locator_fast_or_scan [of cb ob os s]
  show "\<exists>base s' tr. KexRtlGetNativeSystemDllBase os cb ob s = Some (base, s', tr) \<and>
              sorted_wrt (>) (probes tr) \<and>
              (\<forall>p \<in> set (probes tr). 0x70000000 < p \<and> p \<le> 0x7FFD0000) \<and>
              length (probes tr) \<le> 4093"
  proof (elim disjE exE conjE)
    fix st base s1
    assume "KexRtlGetNativeSystemDllBase os cb ob s =
         Some (base, s1, [(Call_LdrGetDllHandleByName NtdllBaseName, st)])"
    then show ?thesis
      by (intro exI [of _ base] exI [of _ s1]
            exI [of _ "[(Call_LdrGetDllHandleByName NtdllBaseName, st)]"])
         (simp add: probes_simps)
  next
    fix s0 tr0
    assume eq: "KexRtlGetNativeSystemDllBase os cb ob s =
       KexRtlGetNativeSystemDllBase_scan os 0x7FFD0000 s0 tr0" and p0: "probes tr0 = []"
    from scan_allocation_below [OF len below, of s0 tr0] obtain r s' ext where
      "KexRtlGetNativeSystemDllBase_scan os 0x7FFD0000 s0 tr0 = Some (r, s', tr0 @ ext)"
      "sorted_wrt (>) (probes ext)"
      "\<forall>p \<in> set (probes ext). 0x70000000 < p \<and> p \<le> 0x7FFD0000"
      "length (probes ext) \<le> 4093"
      by blast
    with eq p0 show ?thesis
      by (intro exI [of _ r] exI [of _ s'] exI [of _ "tr0 @ ext"]) (simp add: probes_append)
  qed
next
  assume a: "no_mapped_file os \<and>
          (cb \<noteq> ob \<or> \<not> NT_SUCCESS (fst (fst (LdrGetDllHandleByName os NtdllBaseName s))))"
  then have path:
    "cb \<noteq> ob \<or> \<not> NT_SUCCESS (fst (fst (LdrGetDllHandleByName os NtdllBaseName s)))"
    by (rule conjunct2)
  from locator_scan [OF path] obtain s0 tr0 where eq: "KexRtlGetNativeSystemDllBase os cb ob s =
       KexRtlGetNativeSystemDllBase_scan os 0x7FFD0000 s0 tr0" and p0: "probes tr0 = []"
    by blast
  from scan_no_mapped_file [OF len, of os s0 tr0] a obtain s' ext where
    "KexRtlGetNativeSystemDllBase_scan os 0x7FFD0000 s0 tr0 = Some (0, s', tr0 @ ext)"
    "probes ext = map (\<lambda>j. 0x70000000 + of_nat j * 0x10000) (rev [1..<Suc 4093])"
    by blast
  with eq p0 show "\<exists>s' tr. KexRtlGetNativeSystemDllBase os cb ob s = Some (0, s', tr) \<and>
              probes tr = map (\<lambda>j. 0x70000000 + of_nat j * 0x10000) (rev [1..<Suc 4093])"
    by (intro exI [of _ s'] exI [of _ "tr0 @ ext"]) (simp only: probes_append append_Nil simp_thms)
qed

theorem KexRtlGetNativeSystemDllBase_probes_descend_witness:
  "allocation_below (kernel32_os :: (unit, 32 word) nt_os) \<and>
   (\<exists>base s' tr. KexRtlGetNativeSystemDllBase (kernel32_os :: (unit, 32 word) nt_os) 32 64 ()
        = Some (base, s', tr) \<and>
      sorted_wrt (>) (probes tr) \<and>
      (\<forall>p \<in> set (probes tr). 0x70000000 < p \<and> p \<le> 0x7FFD0000) \<and>
      length (probes tr) \<le> 4093) \<and>
   no_mapped_file (os_none :: (unit, 32 word) nt_os) \<and>
   (\<exists>s' tr. KexRtlGetNativeSystemDllBase (os_none :: (unit, 32 word) nt_os) 32 64 ()
        = Some (0, s', tr) \<and>
      probes tr = map (\<lambda>j. 0x70000000 + of_nat j * 0x10000) (rev [1..<Suc 4093]))"
proof -
  have len: "32 \<le> LENGTH(32)" by simp
  from KexRtlGetNativeSystemDllBase_probes_descend
         [where os = "kernel32_os :: (unit, 32 word) nt_os" and cb = 32 and ob = 64
            and s = "()", OF len] kernel32_below
  have 1: "\<exists>base s' tr. KexRtlGetNativeSystemDllBase (kernel32_os :: (unit, 32 word) nt_os) 32 64 ()
        = Some (base, s', tr) \<and>
      sorted_wrt (>) (probes tr) \<and>
      (\<forall>p \<in> set (probes tr). 0x70000000 < p \<and> p \<le> 0x7FFD0000) \<and>
      length (probes tr) \<le> 4093"
    by blast
  have ne: "(32 :: ULONG) \<noteq> 64" by simp
  from KexRtlGetNativeSystemDllBase_probes_descend
         [where os = "os_none :: (unit, 32 word) nt_os" and cb = 32 and ob = 64
            and s = "()", OF len] no_mapped_file_os_none ne
  have 2: "\<exists>s' tr. KexRtlGetNativeSystemDllBase (os_none :: (unit, 32 word) nt_os) 32 64 ()
        = Some (0, s', tr) \<and>
      probes tr = map (\<lambda>j. 0x70000000 + of_nat j * 0x10000) (rev [1..<Suc 4093])"
    by blast
  from 1 2 kernel32_below no_mapped_file_os_none show ?thesis by blast
qed

text \<open>
  C5 as stated fails when the allocation base reported is null: in \<open>racing_os\<close> the
  file probed at \<open>0x7FFD0000\<close> is unmapped between the two queries, the basic
  information describes a free region, the step of the loop wraps around zero, and the
  second probe is at \<open>0xFFFF0000\<close>, above the first.  The 32-bit search then makes
  36864 probes before it returns.
\<close>

theorem KexRtlGetNativeSystemDllBase_probe_ascends:
  "take 2 (probes (locator_trace (racing_os :: (bool, 32 word) nt_os) 32 64 True))
     = [0x7FFD0000, 0xFFFF0000] \<and>
   (0x7FFD0000 :: 32 word) < 0xFFFF0000 \<and>
   length (probes (locator_trace (racing_os :: (bool, 32 word) nt_os) 32 64 True)) = 36864"
proof -
  let ?os = "racing_os :: (bool, 32 word) nt_os"
  let ?tr = "[(Call_QueryMappedFilename NtCurrentProcess 0x7FFD0000 512, STATUS_SUCCESS),
      (Call_QueryBasic NtCurrentProcess (0x7FFD0000 :: 32 word), STATUS_SUCCESS)]"
  have fails: "\<not> NT_SUCCESS (fst (fst (NtQueryVirtualMemory_MappedFilename ?os NtCurrentProcess a 512 s)))
      \<and> snd (NtQueryVirtualMemory_MappedFilename ?os NtCurrentProcess a 512 s) = False"
    if "s = False" for a s
    using that by (simp add: racing_fields NT_SUCCESS_simps)
  from scan_all_fail_probes [where I = "\<lambda>s. s = False" and os = ?os and k = 36863
      and s = False and tr = ?tr, OF _ fails]
  obtain s' ext where run: "KexRtlGetNativeSystemDllBase_scan ?os
      (0x70000000 + of_nat 36863 * 0x10000) False ?tr = Some (0, s', ?tr @ ext)"
    and pr: "probes ext = map (\<lambda>j. 0x70000000 + of_nat j * 0x10000) (rev [1..<Suc 36863])"
    and n: "length ext = 36863"
    by auto
  have tr: "locator_trace ?os 32 64 True = ?tr @ ext"
    unfolding locator_trace_def racing_first run by simp
  have p: "probes (locator_trace ?os 32 64 True) =
      0x7FFD0000 # map (\<lambda>j. 0x70000000 + of_nat j * 0x10000) (rev [1..<Suc 36863])"
    unfolding tr probes_append pr by (simp add: probes_simps)
  have "take 2 (probes (locator_trace ?os 32 64 True)) = [0x7FFD0000, 0x70000000 + of_nat 36863 * 0x10000]"
    unfolding p by (rule take_2_probes) simp
  moreover have "length (probes (locator_trace ?os 32 64 True)) = 36864"
    unfolding p by (simp only: list.size length_map length_rev length_upt diff_Suc_1)
  ultimately show ?thesis by simp
qed



text \<open>
  C9.  The number of queries is bounded, but not by a few hundred: in an address space
  with no mapped file the search of a 32-bit process on a 64-bit system makes 4093
  system calls, each the file-name query of one probe, and so does the search of a
  64-bit process after the loader has failed.
\<close>

theorem KexRtlGetNativeSystemDllBase_query_count:
  "length (locator_trace (os_none :: (unit, 32 word) nt_os) 32 64 ()) = 4093 \<and>
   length (probes (locator_trace (os_none :: (unit, 32 word) nt_os) 32 64 ())) = 4093 \<and>
   length (probes (locator_trace (os_none :: (unit, 64 word) nt_os) 64 64 ())) = 4093"
proof -
  have len: "32 \<le> LENGTH(32)" by simp
  from scan_no_mapped_file [OF len no_mapped_file_os_none, of "()" "[]"]
  obtain s' ext where run: "KexRtlGetNativeSystemDllBase_scan (os_none :: (unit, 32 word) nt_os)
      0x7FFD0000 () [] = Some (0, s', [] @ ext)"
    and pr: "probes ext = map (\<lambda>j. 0x70000000 + of_nat j * 0x10000) (rev [1..<Suc 4093])"
    and n: "length ext = 4093"
    by blast
  have tr: "locator_trace (os_none :: (unit, 32 word) nt_os) 32 64 () = ext"
    by (simp add: locator_trace_def KexRtlGetNativeSystemDllBase_def run)
  have narrow: "length (probes ext) = 4093"
    unfolding pr by (simp only: length_map length_rev length_upt diff_Suc_1)
  have len': "32 \<le> LENGTH(64)" by simp
  let ?ldr = "[(Call_LdrGetDllHandleByName NtdllBaseName, STATUS_ACCESS_DENIED)]
                :: 64 word trace"
  from scan_no_mapped_file [OF len' no_mapped_file_os_none, of "()" ?ldr]
  obtain s'' ext' where run': "KexRtlGetNativeSystemDllBase_scan
      (os_none :: (unit, 64 word) nt_os) 0x7FFD0000 () ?ldr = Some (0, s'', ?ldr @ ext')"
    and pr': "probes ext' = map (\<lambda>j. 0x70000000 + of_nat j * 0x10000) (rev [1..<Suc 4093])"
    by blast
  have ldr: "LdrGetDllHandleByName (os_none :: (unit, 64 word) nt_os) NtdllBaseName () =
      ((STATUS_ACCESS_DENIED, 0), ())"
    by (simp add: os_none_def)
  have tr': "locator_trace (os_none :: (unit, 64 word) nt_os) 64 64 () = ?ldr @ ext'"
    by (simp add: locator_trace_def KexRtlGetNativeSystemDllBase_def ldr NT_SUCCESS_simps run')
  have wide: "length (probes (?ldr @ ext')) = 4093"
    unfolding probes_append pr'
    by (simp only: probes_simps append_Nil length_map length_rev length_upt diff_Suc_1)
  from n narrow wide show ?thesis unfolding tr tr' by simp
qed

end
